theory Spec2Isabelle
  imports Complex_Main "HOL-Library.Sublist"
begin

section \<open>Python values used by the scripts\<close>

text \<open>
  The scripts under \<^verbatim>\<open>scripts/\<close> work on Python strings, unbounded integers, lists and
  dictionaries. Strings are modelled as \<^typ>\<open>string\<close> restricted to ASCII text, integers as
  \<^typ>\<open>int\<close>, lists as HOL lists and a dictionary as an association list in insertion order
  (Python dictionaries iterate in insertion order). A raised exception is the left
  summand of a result.
\<close>

datatype py_error = ZeroDivisionError | ValueError

text \<open>Sequencing of two computations that may raise.\<close>

definition and_then :: "py_error + 'a \<Rightarrow> ('a \<Rightarrow> py_error + 'b) \<Rightarrow> py_error + 'b" where
  "and_then r f = (case r of Inl e \<Rightarrow> Inl e | Inr x \<Rightarrow> f x)"

text \<open>The integer operator \<^verbatim>\<open>a // b\<close>: floor division, raising on a zero divisor.\<close>

definition py_floordiv :: "int \<Rightarrow> int \<Rightarrow> py_error + int" where
  "py_floordiv a b = (if b = 0 then Inl ZeroDivisionError else Inr (a div b))"

text \<open>\<^verbatim>\<open>str(n)\<close> for an integer, and the format \<^verbatim>\<open>{n:5d}\<close> (right-justified).\<close>

definition digit_char :: "nat \<Rightarrow> char" where
  "digit_char d = ''0123456789'' ! d"

fun str_nat :: "nat \<Rightarrow> string" where
  "str_nat n = (if n < 10 then [digit_char n] else str_nat (n div 10) @ [digit_char (n mod 10)])"

declare str_nat.simps [simp del]

definition str_int :: "int \<Rightarrow> string" where
  "str_int i = (if i < 0 then CHR ''-'' # str_nat (nat (- i)) else str_nat (nat i))"

definition rjust :: "nat \<Rightarrow> string \<Rightarrow> string" where
  "rjust w s = replicate (w - length s) CHR '' '' @ s"

text \<open>\<^verbatim>\<open>sep.join(lines)\<close>.\<close>

fun join :: "string \<Rightarrow> string list \<Rightarrow> string" where
  "join sep [] = []"
| "join sep [l] = l"
| "join sep (l # m # ls) = l @ sep @ join sep (m # ls)"

text \<open>
  The substring test \<^verbatim>\<open>sub in s\<close>: some suffix of \<^verbatim>\<open>s\<close> starts with \<^verbatim>\<open>sub\<close>.
\<close>

fun str_in :: "string \<Rightarrow> string \<Rightarrow> bool" where
  "str_in sub [] = (sub = [])"
| "str_in sub (c # cs) = (prefix sub (c # cs) \<or> str_in sub cs)"

text \<open>
  \<^verbatim>\<open>s.lower()\<close> and \<^verbatim>\<open>s.strip()\<close> on ASCII text. The characters that Python's
  \<^verbatim>\<open>str.isspace\<close> (and the pattern \<^verbatim>\<open>\s\<close>) accepts below code point 128 are
  9 to 13, 28 to 31 and the blank.
\<close>

definition lower_char :: "char \<Rightarrow> char" where
  "lower_char c =
     (case map_of (zip ''ABCDEFGHIJKLMNOPQRSTUVWXYZ'' ''abcdefghijklmnopqrstuvwxyz'') c of
        Some d \<Rightarrow> d
      | None \<Rightarrow> c)"

definition lower :: "string \<Rightarrow> string" where
  "lower s = map lower_char s"

definition is_space :: "char \<Rightarrow> bool" where
  "is_space c \<longleftrightarrow>
     c \<in> set [CHR 0x09, CHR 0x0A, CHR 0x0B, CHR 0x0C, CHR 0x0D,
               CHR 0x1C, CHR 0x1D, CHR 0x1E, CHR 0x1F, CHR '' '']"

definition strip :: "string \<Rightarrow> string" where
  "strip s = rev (dropWhile is_space (rev (dropWhile is_space s)))"

text \<open>
  \<^verbatim>\<open>s.replace(old, new)\<close>: the occurrences of \<^verbatim>\<open>old\<close> are replaced from left to
  right without overlap; an empty \<^verbatim>\<open>old\<close> matches before every character and at the end.
\<close>

function replace_nonempty :: "string \<Rightarrow> string \<Rightarrow> string \<Rightarrow> string" where
  "replace_nonempty old new [] = []"
| "replace_nonempty old new (c # cs) =
     (if old \<noteq> [] \<and> prefix old (c # cs)
      then new @ replace_nonempty old new (drop (length old) (c # cs))
      else c # replace_nonempty old new cs)"
  by pat_completeness auto
termination
  by (relation "measure (\<lambda>(old, new, s). length s)") (auto simp: neq_Nil_conv)

declare replace_nonempty.simps(2) [simp del]

definition replace :: "string \<Rightarrow> string \<Rightarrow> string \<Rightarrow> string" where
  "replace old new s =
     (if old = [] then new @ concat (map (\<lambda>c. c # new) s) else replace_nonempty old new s)"

text \<open>\<^verbatim>\<open>int(s)\<close> on a non-empty string of decimal digits, as the patterns deliver it.\<close>

definition is_digit :: "char \<Rightarrow> bool" where
  "is_digit c \<longleftrightarrow> c \<in> set ''0123456789''"

definition digit_val :: "char \<Rightarrow> int" where
  "digit_val c = (case map_of (zip ''0123456789'' [0, 1, 2, 3, 4, 5, 6, 7, 8, 9]) c of
                    Some d \<Rightarrow> d
                  | None \<Rightarrow> 0)"

definition int_of_digits :: "string \<Rightarrow> int" where
  "int_of_digits s = foldl (\<lambda>n c. 10 * n + digit_val c) 0 s"

text \<open>
  Floating-point numbers are kept abstract: a type \<^typ>\<open>'f\<close> with the operations the scripts
  apply to it. \<^verbatim>\<open>float(s)\<close> raises \<^verbatim>\<open>ValueError\<close> on a string that is no number
  (\<^verbatim>\<open>None\<close> here); \<^verbatim>\<open>a / b\<close> on integers is used for a non-zero divisor only, the zero
  divisor is handled where the division is written.
\<close>

record 'f float_ops =
  fzero :: 'f
  float_of_str :: "string \<Rightarrow> 'f option"
  fpositive :: "'f \<Rightarrow> bool"
  fmt_2f :: "'f \<Rightarrow> string"
  int_truediv :: "int \<Rightarrow> int \<Rightarrow> 'f"
  fmul_int :: "'f \<Rightarrow> int \<Rightarrow> 'f"

definition py_truediv :: "'f float_ops \<Rightarrow> int \<Rightarrow> int \<Rightarrow> py_error + 'f" where
  "py_truediv F a b = (if b = 0 then Inl ZeroDivisionError else Inr (int_truediv F a b))"

section \<open>analyze\_performance.py: the data\<close>

record TestResult =
  tr_name :: string
  tr_passed :: bool
  tr_details :: string

record 'f PerformanceMetrics =
  total_writes :: int
  total_reads :: int
  peak_occupancy :: int
  fifo_depth :: int
  throughput_mbps :: 'f
  success_rate :: 'f

text \<open>\<^verbatim>\<open>PerformanceMetrics()\<close>: every field at its default.\<close>

definition default_metrics :: "'f float_ops \<Rightarrow> 'f PerformanceMetrics" where
  "default_metrics F =
     \<lparr>total_writes = 0, total_reads = 0, peak_occupancy = 0, fifo_depth = 16,
      throughput_mbps = fzero F, success_rate = fzero F\<rparr>"

section \<open>The patterns of the log parser\<close>

text \<open>
  Each pattern of the scripts is written out as a matcher anchored at the start of its
  argument; \<open>re_search\<close> tries the positions from left to right, as \<^verbatim>\<open>re.search\<close> does.
  In these patterns a greedy repetition is always followed by a character outside its
  class, so backtracking into it cannot succeed and the longest run is the only candidate.
\<close>

definition match_lit :: "string \<Rightarrow> string \<Rightarrow> string option" where
  "match_lit lit s = (if prefix lit s then Some (drop (length lit) s) else None)"

fun re_search :: "(string \<Rightarrow> 'a option) \<Rightarrow> string \<Rightarrow> 'a option" where
  "re_search m [] = m []"
| "re_search m (c # cs) = (case m (c # cs) of Some g \<Rightarrow> Some g | None \<Rightarrow> re_search m cs)"

text \<open>
  \<^verbatim>\<open>label\s*(\d+)trail\<close>, for \<^verbatim>\<open>Total Writes:\s*(\d+)\<close>, \<^verbatim>\<open>Total Reads:\s*(\d+)\<close>
  and \<^verbatim>\<open>Success Rate:\s*(\d+)%\<close>; the result is group 1.
\<close>

definition match_int_after :: "string \<Rightarrow> string \<Rightarrow> string \<Rightarrow> string option" where
  "match_int_after label trail s =
     (case match_lit label s of
        None \<Rightarrow> None
      | Some r \<Rightarrow>
          (let r1 = dropWhile is_space r;
               g = takeWhile is_digit r1
           in if g \<noteq> [] \<and> prefix trail (dropWhile is_digit r1) then Some g else None))"

text \<open>\<^verbatim>\<open>Peak Occupancy:\s*(\d+)/(\d+)\<close>; the result is groups 1 and 2.\<close>

definition match_peak :: "string \<Rightarrow> (string \<times> string) option" where
  "match_peak s =
     (case match_lit ''Peak Occupancy:'' s of
        None \<Rightarrow> None
      | Some r \<Rightarrow>
          (let r1 = dropWhile is_space r;
               g1 = takeWhile is_digit r1
           in if g1 = [] then None
              else (case match_lit ''/'' (dropWhile is_digit r1) of
                      None \<Rightarrow> None
                    | Some r2 \<Rightarrow>
                        (let g2 = takeWhile is_digit r2
                         in if g2 = [] then None else Some (g1, g2)))))"

text \<open>\<^verbatim>\<open>Throughput:\s*([\d.]+)\s*MB/s\<close>; the result is group 1.\<close>

definition is_digit_or_dot :: "char \<Rightarrow> bool" where
  "is_digit_or_dot c \<longleftrightarrow> is_digit c \<or> c = CHR ''.''"

definition match_throughput :: "string \<Rightarrow> string option" where
  "match_throughput s =
     (case match_lit ''Throughput:'' s of
        None \<Rightarrow> None
      | Some r \<Rightarrow>
          (let r1 = dropWhile is_space r;
               g = takeWhile is_digit_or_dot r1
           in if g \<noteq> [] \<and> prefix ''MB/s'' (dropWhile is_space (dropWhile is_digit_or_dot r1))
              then Some g else None))"

text \<open>
  \<^verbatim>\<open>\[TEST (\d+)\] (.+?)\.+ (PASS|FAIL)\<close>. The tail \<^verbatim>\<open>\.+ (PASS|FAIL)\<close> needs a run of
  dots, a blank and one of the two tokens. The lazy group \<^verbatim>\<open>(.+?)\<close> takes at least one
  character other than a newline and is extended one character at a time until the tail
  matches. A match yields its three groups and the text after it.
\<close>

definition is_dot :: "char \<Rightarrow> bool" where
  "is_dot c \<longleftrightarrow> c = CHR ''.''"

definition match_outcome :: "string \<Rightarrow> (string \<times> string) option" where
  "match_outcome s =
     (let r = dropWhile is_dot s
      in if takeWhile is_dot s = [] then None
         else if prefix '' PASS'' r then Some (''PASS'', drop 5 r)
         else if prefix '' FAIL'' r then Some (''FAIL'', drop 5 r)
         else None)"

fun match_name :: "string \<Rightarrow> string \<Rightarrow> (string \<times> string \<times> string) option" where
  "match_name acc [] = None"
| "match_name acc (c # cs) =
     (if c = CHR 0x0A then None
      else (case match_outcome cs of
              Some (tok, rest) \<Rightarrow> Some (acc @ [c], tok, rest)
            | None \<Rightarrow> match_name (acc @ [c]) cs))"

definition match_test :: "string \<Rightarrow> ((string \<times> string \<times> string) \<times> string) option" where
  "match_test s =
     (case match_lit ''[TEST '' s of
        None \<Rightarrow> None
      | Some r \<Rightarrow>
          (if takeWhile is_digit r = [] then None
           else (case match_lit ''] '' (dropWhile is_digit r) of
                   None \<Rightarrow> None
                 | Some r2 \<Rightarrow>
                     (case match_name [] r2 of
                        None \<Rightarrow> None
                      | Some (nm, tok, rest) \<Rightarrow> Some ((takeWhile is_digit r, nm, tok), rest)))))"

text \<open>
  \<^verbatim>\<open>re.finditer\<close> with this pattern: the matches from left to right, without overlap; the
  scan resumes where a match ended.
\<close>

function finditer_tests :: "string \<Rightarrow> (string \<times> string \<times> string) list" where
  "finditer_tests [] = []"
| "finditer_tests (c # cs) =
     (case match_test (c # cs) of
        Some (g, rest) \<Rightarrow> g # finditer_tests rest
      | None \<Rightarrow> finditer_tests cs)"
  by pat_completeness auto

text \<open>Every match consumes at least one character, so the scan terminates.\<close>

lemma match_lit_shorter:
  "match_lit lit s = Some r \<Longrightarrow> length r \<le> length s"
  by (auto simp: match_lit_def split: if_splits)

lemma match_outcome_shorter:
  assumes "match_outcome s = Some (tok, rest)"
  shows "length rest \<le> length s"
proof -
  have "rest = drop 5 (dropWhile is_dot s)"
    using assms by (auto simp: match_outcome_def Let_def split: if_splits)
  moreover have "length (dropWhile is_dot s) \<le> length s"
    by (rule length_dropWhile_le)
  ultimately show ?thesis by simp
qed

lemma match_name_shorter:
  "match_name acc s = Some (nm, tok, rest) \<Longrightarrow> length rest < length s"
proof (induction s arbitrary: acc)
  case Nil
  then show ?case by simp
next
  case (Cons c cs)
  then show ?case
    by (fastforce split: if_splits option.splits dest: match_outcome_shorter)
qed

lemma match_test_shorter:
  assumes "match_test s = Some (g, rest)"
  shows "length rest < length s"
proof -
  from assms obtain r r2 nm tok where
    r: "match_lit ''[TEST '' s = Some r" and
    r2: "match_lit ''] '' (dropWhile is_digit r) = Some r2" and
    nm: "match_name [] r2 = Some (nm, tok, rest)"
    by (auto simp: match_test_def split: option.splits if_splits)
  have "length rest < length r2" using nm by (rule match_name_shorter)
  also have "length r2 \<le> length (dropWhile is_digit r)" using r2 by (rule match_lit_shorter)
  also have "\<dots> \<le> length r" by (rule length_dropWhile_le)
  also have "\<dots> \<le> length s" using r by (rule match_lit_shorter)
  finally show ?thesis .
qed

termination finditer_tests
  by (relation "measure length") (auto dest: match_test_shorter)

declare finditer_tests.simps(2) [simp del]

section \<open>analyze\_performance.py: parse\_sync\_log\<close>

text \<open>
  The file system is a map from paths to contents; \<^verbatim>\<open>log_file.exists()\<close> is the path
  being in its domain. The parser returns what it printed together with its result.
  (\<^verbatim>\<open>test_num\<close> is computed and never used. The interpreter's limit on the length of a
  decimal string given to \<^verbatim>\<open>int\<close> is not modelled.)
\<close>

definition parse_tests :: "string \<Rightarrow> TestResult list" where
  "parse_tests content =
     map (\<lambda>(num, nm, tok). \<lparr>tr_name = strip nm, tr_passed = (tok = ''PASS''), tr_details = []\<rparr>)
       (finditer_tests content)"

definition set_writes :: "string \<Rightarrow> 'f PerformanceMetrics \<Rightarrow> 'f PerformanceMetrics" where
  "set_writes content m =
     (case re_search (match_int_after ''Total Writes:'' []) content of
        Some g \<Rightarrow> m\<lparr>total_writes := int_of_digits g\<rparr>
      | None \<Rightarrow> m)"

definition set_reads :: "string \<Rightarrow> 'f PerformanceMetrics \<Rightarrow> 'f PerformanceMetrics" where
  "set_reads content m =
     (case re_search (match_int_after ''Total Reads:'' []) content of
        Some g \<Rightarrow> m\<lparr>total_reads := int_of_digits g\<rparr>
      | None \<Rightarrow> m)"

definition set_peak :: "string \<Rightarrow> 'f PerformanceMetrics \<Rightarrow> 'f PerformanceMetrics" where
  "set_peak content m =
     (case re_search match_peak content of
        Some (g1, g2) \<Rightarrow> m\<lparr>peak_occupancy := int_of_digits g1, fifo_depth := int_of_digits g2\<rparr>
      | None \<Rightarrow> m)"

definition set_throughput ::
  "'f float_ops \<Rightarrow> string \<Rightarrow> 'f PerformanceMetrics \<Rightarrow> py_error + 'f PerformanceMetrics" where
  "set_throughput F content m =
     (case re_search match_throughput content of
        Some g \<Rightarrow>
          (case float_of_str F g of
             Some x \<Rightarrow> Inr (m\<lparr>throughput_mbps := x\<rparr>)
           | None \<Rightarrow> Inl ValueError)
      | None \<Rightarrow> Inr m)"

definition set_success ::
  "'f float_ops \<Rightarrow> string \<Rightarrow> 'f PerformanceMetrics \<Rightarrow> py_error + 'f PerformanceMetrics" where
  "set_success F content m =
     (case re_search (match_int_after ''Success Rate:'' ''%'') content of
        Some g \<Rightarrow>
          (case float_of_str F g of
             Some x \<Rightarrow> Inr (m\<lparr>success_rate := x\<rparr>)
           | None \<Rightarrow> Inl ValueError)
      | None \<Rightarrow> Inr m)"

definition parse_content ::
  "'f float_ops \<Rightarrow> string \<Rightarrow> py_error + TestResult list \<times> 'f PerformanceMetrics" where
  "parse_content F content =
     (let tests = parse_tests content;
          metrics = set_peak content (set_reads content (set_writes content (default_metrics F)))
      in and_then (set_throughput F content metrics) (\<lambda>metrics.
         and_then (set_success F content metrics) (\<lambda>metrics.
         Inr (tests, metrics))))"

definition parse_sync_log ::
  "'f float_ops \<Rightarrow> (string \<rightharpoonup> string) \<Rightarrow> string \<Rightarrow>
     string list \<times> (py_error + TestResult list \<times> 'f PerformanceMetrics)" where
  "parse_sync_log F fs log_file =
     (case fs log_file of
        None \<Rightarrow> ([''Warning: Log file not found: '' @ log_file], Inr ([], default_metrics F))
      | Some content \<Rightarrow> ([], parse_content F content))"

definition parse_async_log ::
  "'f float_ops \<Rightarrow> (string \<rightharpoonup> string) \<Rightarrow> string \<Rightarrow>
     string list \<times> (py_error + TestResult list \<times> 'f PerformanceMetrics)" where
  "parse_async_log F fs log_file = parse_sync_log F fs log_file"

section \<open>analyze\_performance.py: generate\_report\<close>

text \<open>
  The report is built as a list of lines. The two test blocks are the same code written
  twice; the two metrics blocks differ. An f-string that divides raises before its line is
  appended, and the report is lost. The time stamp is a parameter; writing the report to a
  file is left out.
\<close>

definition rule_line :: "char \<Rightarrow> string" where
  "rule_line c = replicate 70 c"

definition count_passed :: "TestResult list \<Rightarrow> int" where
  "count_passed tests = sum_list (map (\<lambda>t. 1) (filter tr_passed tests))"

definition test_line :: "TestResult \<Rightarrow> string" where
  "test_line test = ''  ['' @ (if tr_passed test then ''PASS'' else ''FAIL'') @ ''] '' @ tr_name test"

definition summary_line :: "int \<Rightarrow> int \<Rightarrow> int \<Rightarrow> string" where
  "summary_line passed n_tests pct =
     ''Summary: '' @ str_int passed @ ''/'' @ str_int n_tests @ '' tests passed ('' @ str_int pct @ ''%)''"

definition test_results_block :: "TestResult list \<Rightarrow> py_error + string list" where
  "test_results_block tests =
     (if tests \<noteq> [] then
        (let passed = count_passed tests;
             failed = int (length tests) - passed
         in and_then (py_floordiv (passed * 100) (int (length tests))) (\<lambda>pct.
            Inr ([[], ''Test Results:''] @ map test_line tests @
                 [[], summary_line passed (int (length tests)) pct])))
      else Inr [])"

definition throughput_lines :: "'f float_ops \<Rightarrow> 'f PerformanceMetrics \<Rightarrow> string list" where
  "throughput_lines F m =
     (if fpositive F (throughput_mbps m)
      then [''  Throughput:      '' @ fmt_2f F (throughput_mbps m) @ '' MB/s'']
      else [])"

definition peak_line :: "int \<Rightarrow> int \<Rightarrow> int \<Rightarrow> string" where
  "peak_line peak depth pct =
     ''  Peak Occupancy:  '' @ str_int peak @ ''/'' @ str_int depth @ '' ('' @ str_int pct @ ''%)''"

definition sync_metrics_block ::
  "'f float_ops \<Rightarrow> 'f PerformanceMetrics \<Rightarrow> py_error + string list" where
  "sync_metrics_block F m =
     (if total_writes m > 0 then
        and_then (py_floordiv (peak_occupancy m * 100) (fifo_depth m)) (\<lambda>pct.
          Inr ([[], ''Performance Metrics:'',
                ''  Total Writes:    '' @ str_int (total_writes m),
                ''  Total Reads:     '' @ str_int (total_reads m),
                peak_line (peak_occupancy m) (fifo_depth m) pct]
               @ throughput_lines F m))
      else Inr [])"

definition async_metrics_block :: "'f float_ops \<Rightarrow> 'f PerformanceMetrics \<Rightarrow> string list" where
  "async_metrics_block F m =
     (if total_writes m > 0 then
        [[], ''Performance Metrics:'',
         ''  Total Writes:    '' @ str_int (total_writes m),
         ''  Total Reads:     '' @ str_int (total_reads m)]
        @ throughput_lines F m
      else [])"

definition fmt_5d :: "int \<Rightarrow> string" where
  "fmt_5d n = rjust 5 (str_int n)"

definition comparison_lines ::
  "TestResult list \<Rightarrow> 'f PerformanceMetrics \<Rightarrow> TestResult list \<Rightarrow> 'f PerformanceMetrics \<Rightarrow>
     string list" where
  "comparison_lines sync_tests sync_metrics async_tests async_metrics =
     (let total_sync_tests = (if sync_tests \<noteq> [] then int (length sync_tests) else 0);
          total_async_tests = (if async_tests \<noteq> [] then int (length async_tests) else 0);
          sync_passed = (if sync_tests \<noteq> [] then count_passed sync_tests else 0);
          async_passed = (if async_tests \<noteq> [] then count_passed async_tests else 0)
      in [''                          Sync FIFO    Async FIFO'',
          ''                          ---------    ----------'',
          ''  Tests Passed:           '' @ fmt_5d sync_passed @ ''        '' @ fmt_5d async_passed,
          ''  Tests Failed:           '' @ fmt_5d (total_sync_tests - sync_passed) @ ''        ''
             @ fmt_5d (total_async_tests - async_passed),
          ''  Total Writes:           '' @ fmt_5d (total_writes sync_metrics) @ ''        ''
             @ fmt_5d (total_writes async_metrics),
          ''  Total Reads:            '' @ fmt_5d (total_reads sync_metrics) @ ''        ''
             @ fmt_5d (total_reads async_metrics)])"

definition overall_status :: "TestResult list \<Rightarrow> TestResult list \<Rightarrow> string list" where
  "overall_status sync_tests async_tests =
     (let total_sync_tests = (if sync_tests \<noteq> [] then int (length sync_tests) else 0);
          total_async_tests = (if async_tests \<noteq> [] then int (length async_tests) else 0);
          sync_passed = (if sync_tests \<noteq> [] then count_passed sync_tests else 0);
          async_passed = (if async_tests \<noteq> [] then count_passed async_tests else 0);
          all_passed = (sync_passed = total_sync_tests \<and> async_passed = total_async_tests \<and>
                        total_sync_tests > 0 \<and> total_async_tests > 0)
      in if all_passed then [''OVERALL STATUS: ALL TESTS PASSED'']
         else if total_sync_tests = 0 \<and> total_async_tests = 0
         then [''OVERALL STATUS: NO SIMULATION DATA FOUND'',
               ''Run '' @ [CHR 0x27] @ ''make test'' @ [CHR 0x27] @ '' in the sim/ directory first.'']
         else [''OVERALL STATUS: SOME TESTS FAILED''])"

definition report_lines ::
  "'f float_ops \<Rightarrow> string \<Rightarrow> TestResult list \<times> 'f PerformanceMetrics \<Rightarrow>
     TestResult list \<times> 'f PerformanceMetrics \<Rightarrow> py_error + string list" where
  "report_lines F now sync_results async_results =
     (case sync_results of (sync_tests, sync_metrics) \<Rightarrow>
      case async_results of (async_tests, async_metrics) \<Rightarrow>
        and_then (test_results_block sync_tests) (\<lambda>sync_block.
        and_then (sync_metrics_block F sync_metrics) (\<lambda>sync_perf.
        and_then (test_results_block async_tests) (\<lambda>async_block.
        Inr ([rule_line CHR ''='', ''FIFO PROJECT - PERFORMANCE ANALYSIS REPORT'', rule_line CHR ''='',
              ''Generated: '' @ now, [],
              rule_line CHR ''-'', ''SYNCHRONOUS FIFO RESULTS'', rule_line CHR ''-'']
             @ sync_block @ sync_perf @
             [[],
              rule_line CHR ''-'', ''ASYNCHRONOUS FIFO RESULTS'', rule_line CHR ''-'']
             @ async_block @ async_metrics_block F async_metrics @
             [[],
              rule_line CHR ''-'', ''COMPARISON SUMMARY'', rule_line CHR ''-'', []]
             @ comparison_lines sync_tests sync_metrics async_tests async_metrics @
             [[], rule_line CHR ''='']
             @ overall_status sync_tests async_tests @
             [rule_line CHR ''=''])))))"

definition generate_report ::
  "'f float_ops \<Rightarrow> string \<Rightarrow> TestResult list \<times> 'f PerformanceMetrics \<Rightarrow>
     TestResult list \<times> 'f PerformanceMetrics \<Rightarrow> py_error + string" where
  "generate_report F now sync_results async_results =
     and_then (report_lines F now sync_results async_results) (\<lambda>lines.
       Inr (join [CHR 0x0A] lines))"

section \<open>check\_coverage.py\<close>

record TestScenario =
  ts_name :: string
  ts_category :: string
  ts_description :: string
  ts_executed :: bool
  ts_passed :: bool

subsection \<open>extract\_tests\_from\_testbench\<close>

text \<open>
  \<^verbatim>\<open>s.title()\<close> on ASCII text: a letter that follows no letter is put in upper case, a letter
  that follows a letter in lower case.
\<close>

definition is_upper :: "char \<Rightarrow> bool" where
  "is_upper c \<longleftrightarrow> c \<in> set ''ABCDEFGHIJKLMNOPQRSTUVWXYZ''"

definition is_lower :: "char \<Rightarrow> bool" where
  "is_lower c \<longleftrightarrow> c \<in> set ''abcdefghijklmnopqrstuvwxyz''"

definition upper_char :: "char \<Rightarrow> char" where
  "upper_char c =
     (case map_of (zip ''abcdefghijklmnopqrstuvwxyz'' ''ABCDEFGHIJKLMNOPQRSTUVWXYZ'') c of
        Some d \<Rightarrow> d
      | None \<Rightarrow> c)"

fun title_from :: "bool \<Rightarrow> string \<Rightarrow> string" where
  "title_from previous_is_cased [] = []"
| "title_from previous_is_cased (c # cs) =
     (if is_lower c then (if previous_is_cased then c else upper_char c) # title_from True cs
      else if is_upper c then (if previous_is_cased then lower_char c else c) # title_from True cs
      else c # title_from False cs)"

definition title :: "string \<Rightarrow> string" where
  "title s = title_from False s"

text \<open>\<^verbatim>\<open>task\s+(test_\w+)\s*;\<close>; a match yields group 1 and the text after it.\<close>

definition is_word :: "char \<Rightarrow> bool" where
  "is_word c \<longleftrightarrow> is_lower c \<or> is_upper c \<or> is_digit c \<or> c = CHR ''_''"

definition match_task :: "string \<Rightarrow> (string \<times> string) option" where
  "match_task s =
     (case match_lit ''task'' s of
        None \<Rightarrow> None
      | Some r \<Rightarrow>
          (if takeWhile is_space r = [] then None
           else (case match_lit ''test_'' (dropWhile is_space r) of
                   None \<Rightarrow> None
                 | Some r2 \<Rightarrow>
                     (if takeWhile is_word r2 = [] then None
                      else (case match_lit '';'' (dropWhile is_space (dropWhile is_word r2)) of
                              None \<Rightarrow> None
                            | Some rest \<Rightarrow> Some (''test_'' @ takeWhile is_word r2, rest))))))"

function finditer_tasks :: "string \<Rightarrow> string list" where
  "finditer_tasks [] = []"
| "finditer_tasks (c # cs) =
     (case match_task (c # cs) of
        Some (g, rest) \<Rightarrow> g # finditer_tasks rest
      | None \<Rightarrow> finditer_tasks cs)"
  by pat_completeness auto

lemma match_task_shorter:
  assumes "match_task s = Some (g, rest)"
  shows "length rest < length s"
proof -
  from assms obtain r r2 where
    r: "match_lit ''task'' s = Some r" and
    r2: "match_lit ''test_'' (dropWhile is_space r) = Some r2" and
    rest: "match_lit '';'' (dropWhile is_space (dropWhile is_word r2)) = Some rest"
    by (auto simp: match_task_def split: option.splits if_splits)
  have "length rest \<le> length (dropWhile is_space (dropWhile is_word r2))"
    using rest by (rule match_lit_shorter)
  also have "\<dots> \<le> length (dropWhile is_word r2)" by (rule length_dropWhile_le)
  also have "\<dots> \<le> length r2" by (rule length_dropWhile_le)
  also have "\<dots> \<le> length (dropWhile is_space r)" using r2 by (rule match_lit_shorter)
  also have "\<dots> \<le> length r" by (rule length_dropWhile_le)
  also have "\<dots> < length s" using r by (auto simp: match_lit_def prefix_def split: if_splits)
  finally show ?thesis .
qed

termination finditer_tasks
  by (relation "measure length") (auto dest: match_task_shorter)

declare finditer_tasks.simps(2) [simp del]

definition extract_tests_from_testbench :: "(string \<rightharpoonup> string) \<Rightarrow> string \<Rightarrow> TestScenario list" where
  "extract_tests_from_testbench fs tb_file =
     (case fs tb_file of
        None \<Rightarrow> []
      | Some content \<Rightarrow>
          map (\<lambda>task_name.
                 \<lparr>ts_name = task_name, ts_category = ''functional'',
                  ts_description = title (replace ''_'' '' '' (replace ''test_'' [] task_name)),
                  ts_executed = False, ts_passed = False\<rparr>)
            (finditer_tasks content))"

subsection \<open>check\_test\_execution\<close>

text \<open>
  The dictionary \<^verbatim>\<open>executed_tests\<close> is an association list in insertion order: an
  assignment to a key that is present replaces its value where it stands, an assignment
  to a new key goes to the end. The pattern is the one of the log parser, without the group
  around the test number.
\<close>

fun dict_set :: "('k \<times> 'v) list \<Rightarrow> 'k \<Rightarrow> 'v \<Rightarrow> ('k \<times> 'v) list" where
  "dict_set [] k v = [(k, v)]"
| "dict_set ((k', v') # d) k v = (if k' = k then (k, v) # d else (k', v') # dict_set d k v)"

definition result_matches :: "string \<Rightarrow> (string \<times> string) list" where
  "result_matches content = map (\<lambda>(num, nm, tok). (nm, tok)) (finditer_tests content)"

definition executed_tests_of :: "(string \<times> string) list \<Rightarrow> (string \<times> bool) list" where
  "executed_tests_of matches =
     foldl (\<lambda>executed_tests (g1, g2).
              (let test_name = strip g1; passed = (g2 = ''PASS'')
               in dict_set executed_tests (lower test_name) passed))
       [] matches"

text \<open>
  The name the alternative matching compares: \<^verbatim>\<open>test.name.replace('test_', '').replace('_', ' ')\<close>.
\<close>

definition short_name :: "TestScenario \<Rightarrow> string" where
  "short_name test = replace ''_'' '' '' (replace ''test_'' [] (ts_name test))"

fun alternative_matching :: "(string \<times> bool) list \<Rightarrow> TestScenario \<Rightarrow> TestScenario" where
  "alternative_matching [] test = test"
| "alternative_matching ((key, passed) # items) test =
     (if str_in (short_name test) key \<or> str_in key (short_name test)
      then test\<lparr>ts_executed := True, ts_passed := passed\<rparr>
      else alternative_matching items test)"

definition update_status :: "(string \<times> bool) list \<Rightarrow> TestScenario \<Rightarrow> TestScenario" where
  "update_status executed_tests test =
     (let test_key = lower (ts_description test)
      in case map_of executed_tests test_key of
           Some passed \<Rightarrow> test\<lparr>ts_executed := True, ts_passed := passed\<rparr>
         | None \<Rightarrow> alternative_matching executed_tests test)"

definition check_test_execution ::
  "(string \<rightharpoonup> string) \<Rightarrow> string \<Rightarrow> TestScenario list \<Rightarrow> TestScenario list" where
  "check_test_execution fs log_file tests =
     (case fs log_file of
        None \<Rightarrow> tests
      | Some content \<Rightarrow> map (update_status (executed_tests_of (result_matches content))) tests)"

subsection \<open>generate\_coverage\_report\<close>

text \<open>The conditional expression \<^verbatim>\<open>part*100//whole if whole > 0 else 0\<close>.\<close>

definition guarded_percent :: "int \<Rightarrow> int \<Rightarrow> py_error + int" where
  "guarded_percent part whole = (if whole > 0 then py_floordiv (part * 100) whole else Inr 0)"

definition count_executed :: "TestScenario list \<Rightarrow> int" where
  "count_executed tests = sum_list (map (\<lambda>t. 1) (filter ts_executed tests))"

definition count_scenarios_passed :: "TestScenario list \<Rightarrow> int" where
  "count_scenarios_passed tests = sum_list (map (\<lambda>t. 1) (filter ts_passed tests))"

definition scenario_line :: "TestScenario \<Rightarrow> string" where
  "scenario_line test =
     (let status = (if ts_passed test then ''PASS''
                    else if ts_executed test then ''FAIL'' else ''NOT RUN'');
          symbol = (if ts_passed test then ''[+]''
                    else if ts_executed test then ''[-]'' else ''[ ]'')
      in ''  '' @ symbol @ '' '' @ ts_description test @ '': '' @ status)"

definition coverage_section :: "string \<Rightarrow> TestScenario list \<Rightarrow> py_error + string list" where
  "coverage_section heading tests =
     (let executed = count_executed tests;
          n_tests = int (length tests)
      in and_then (guarded_percent executed n_tests) (\<lambda>pct.
         Inr ([rule_line CHR ''-'', heading, rule_line CHR ''-'',
               CHR 0x0A # ''Tests Defined: '' @ str_int n_tests,
               ''Tests Executed: '' @ str_int executed,
               ''Coverage: '' @ str_int pct @ ''%'',
               [],
               ''Test Status:'']
              @ map scenario_line tests @ [[]])))"

definition required_tests :: "(string \<times> string list) list" where
  "required_tests =
     [(''Basic Functionality'',
         [''Reset behavior'', ''Single write/read'', ''Fill FIFO'', ''Drain FIFO'',
          ''Simultaneous read/write'']),
      (''Corner Cases'',
         [''Overflow detection'', ''Underflow detection'', ''Pointer wrap-around'']),
      (''Stress Tests'',
         [''Random operations'', ''Burst operations'', ''Performance test'']),
      (''CDC Tests (Async only)'',
         [''Clock ratio variations'', ''CDC stress test''])]"

definition checklist_lines :: "string list \<Rightarrow> string list" where
  "checklist_lines all_test_names =
     concat (map (\<lambda>(category, tests).
                    [category @ '':''] @
                    map (\<lambda>test.
                           (let covered = list_ex (\<lambda>name. str_in (lower test) name) all_test_names;
                                symbol = (if covered then ''[x]'' else ''[ ]'')
                            in ''  '' @ symbol @ '' '' @ test))
                      tests @
                    [[]])
               required_tests)"

definition coverage_summary :: "TestScenario list \<Rightarrow> TestScenario list \<Rightarrow> py_error + string list" where
  "coverage_summary sync_tests async_tests =
     (let total_executed = count_executed sync_tests + count_executed async_tests;
          total_tests = int (length sync_tests) + int (length async_tests);
          total_passed = count_scenarios_passed (sync_tests @ async_tests)
      in and_then (guarded_percent total_executed total_tests) (\<lambda>coverage.
         and_then (guarded_percent total_passed total_executed) (\<lambda>pass_rate.
         Inr [rule_line CHR ''='',
              ''OVERALL COVERAGE: '' @ str_int total_executed @ ''/'' @ str_int total_tests @
                '' tests executed ('' @ str_int coverage @ ''%)'',
              ''PASS RATE: '' @ str_int total_passed @ ''/'' @ str_int total_executed @
                '' tests passed ('' @ str_int pass_rate @ ''%)'',
              rule_line CHR ''=''])))"

definition generate_coverage_report ::
  "TestScenario list \<Rightarrow> TestScenario list \<Rightarrow> py_error + string" where
  "generate_coverage_report sync_tests async_tests =
     and_then (coverage_section ''SYNCHRONOUS FIFO COVERAGE'' sync_tests) (\<lambda>sync_lines.
     and_then (coverage_section ''ASYNCHRONOUS FIFO COVERAGE'' async_tests) (\<lambda>async_lines.
     and_then (coverage_summary sync_tests async_tests) (\<lambda>summary.
     Inr (join [CHR 0x0A]
            ([rule_line CHR ''='', ''FIFO PROJECT - TEST COVERAGE REPORT'', rule_line CHR ''='', []]
             @ sync_lines @ async_lines @
             [rule_line CHR ''-'', ''REQUIRED TEST COVERAGE CHECKLIST'', rule_line CHR ''-'', []]
             @ checklist_lines (map (\<lambda>t. lower (ts_description t)) (sync_tests @ async_tests))
             @ summary)))))"

section \<open>analyze\_synthesis.py\<close>

text \<open>
  The parsed report, as \<^verbatim>\<open>parse_yosys_report\<close> returns it: the dictionary \<^verbatim>\<open>cells\<close> from
  cell-type names to counts and three numbers. \<^verbatim>\<open>None\<close> stands for a report that was not
  found. The resources are the dictionary \<^verbatim>\<open>resources\<close> with its five keys.
\<close>

record CellReport =
  cells :: "(string \<times> int) list"
  wires :: int
  memories :: int
  processes :: int

record ResourceSummary =
  logic_cells :: int
  flip_flops :: int
  muxes :: int
  memory_bits :: int
  total_cells :: int

definition no_resources :: ResourceSummary where
  "no_resources = \<lparr>logic_cells = 0, flip_flops = 0, muxes = 0, memory_bits = 0, total_cells = 0\<rparr>"

text \<open>The body of the loop over \<^verbatim>\<open>results['cells'].items()\<close>: three independent tests.\<close>

definition count_cell :: "ResourceSummary \<Rightarrow> string \<times> int \<Rightarrow> ResourceSummary" where
  "count_cell resources item =
     (case item of (cell_type, count) \<Rightarrow>
        (let resources = resources\<lparr>total_cells := total_cells resources + count\<rparr>;
             resources = (if str_in ''DFF'' cell_type \<or> str_in ''FF'' cell_type
                          then resources\<lparr>flip_flops := flip_flops resources + count\<rparr>
                          else resources);
             resources = (if str_in ''MUX'' cell_type
                          then resources\<lparr>muxes := muxes resources + count\<rparr>
                          else resources);
             resources = (if list_ex (\<lambda>x. str_in x cell_type)
                               [''LUT'', ''AND'', ''OR'', ''XOR'', ''NOT'', ''NAND'', ''NOR'']
                          then resources\<lparr>logic_cells := logic_cells resources + count\<rparr>
                          else resources)
         in resources))"

definition count_resources :: "CellReport option \<Rightarrow> ResourceSummary" where
  "count_resources results =
     (case results of
        None \<Rightarrow> no_resources
      | Some r \<Rightarrow> foldl count_cell no_resources (cells r))"

text \<open>
  The percentage of the comparison table, written the same way in \<^verbatim>\<open>main\<close> here and in
  \<^verbatim>\<open>print_row\<close> of synthesis\_summary.py:
  \<^verbatim>\<open>diff_pct = (diff / sync_val * 100) if sync_val > 0 else 0\<close>.
  Its value is a float or the integer 0.
\<close>

datatype 'f py_number = PyInt int | PyFloat 'f

definition diff_pct :: "'f float_ops \<Rightarrow> int \<Rightarrow> int \<Rightarrow> py_error + 'f py_number" where
  "diff_pct F sync_val async_val =
     (let diff = async_val - sync_val
      in if sync_val > 0
         then and_then (py_truediv F diff sync_val) (\<lambda>quotient.
                Inr (PyFloat (fmul_int F quotient 100)))
         else Inr (PyInt 0))"

section \<open>synthesis\_summary.py\<close>

definition count_ffs :: "(string \<times> int) list \<Rightarrow> int" where
  "count_ffs cell_dict =
     foldl (\<lambda>ff_count (cell_type, count).
              if str_in ''DFF'' cell_type \<or> str_in ''FF'' cell_type then ff_count + count
              else ff_count)
       0 cell_dict"

text \<open>The inner loop of \<^verbatim>\<open>count_logic\<close> leaves at the first logic type found in the name.\<close>

fun add_if_logic :: "string list \<Rightarrow> string \<Rightarrow> int \<Rightarrow> int \<Rightarrow> int" where
  "add_if_logic [] cell_type count logic_count = logic_count"
| "add_if_logic (ltype # ltypes) cell_type count logic_count =
     (if str_in ltype cell_type then logic_count + count
      else add_if_logic ltypes cell_type count logic_count)"

definition count_logic :: "(string \<times> int) list \<Rightarrow> int" where
  "count_logic cell_dict =
     foldl (\<lambda>logic_count (cell_type, count).
              add_if_logic [''AND'', ''OR'', ''XOR'', ''NAND'', ''NOR'', ''XNOR'', ''NOT'']
                cell_type count logic_count)
       0 cell_dict"

definition count_mux :: "(string \<times> int) list \<Rightarrow> int" where
  "count_mux cell_dict = (case map_of cell_dict ''$_MUX_'' of Some n \<Rightarrow> n | None \<Rightarrow> 0)"

section \<open>plot\_results.py: parse\_metrics\<close>

text \<open>
  The values of the dictionary are integers or floats:
  \<^verbatim>\<open>float(g) if '.' in g else int(g)\<close>. Nothing is printed.
\<close>

record 'f PlotMetrics =
  pm_total_writes :: "'f py_number"
  pm_total_reads :: "'f py_number"
  pm_peak_occupancy :: int
  pm_fifo_depth :: int
  pm_throughput :: "'f py_number"
  pm_tests_passed :: "'f py_number"
  pm_tests_failed :: "'f py_number"

definition default_plot_metrics :: "'f float_ops \<Rightarrow> 'f PlotMetrics" where
  "default_plot_metrics F =
     \<lparr>pm_total_writes = PyInt 0, pm_total_reads = PyInt 0, pm_peak_occupancy = 0,
      pm_fifo_depth = 16, pm_throughput = PyFloat (fzero F), pm_tests_passed = PyInt 0,
      pm_tests_failed = PyInt 0\<rparr>"

definition number_of_str :: "'f float_ops \<Rightarrow> string \<Rightarrow> py_error + 'f py_number" where
  "number_of_str F g =
     (if CHR ''.'' \<in> set g
      then (case float_of_str F g of Some x \<Rightarrow> Inr (PyFloat x) | None \<Rightarrow> Inl ValueError)
      else Inr (PyInt (int_of_digits g)))"

definition search_number ::
  "'f float_ops \<Rightarrow> (string \<Rightarrow> string option) \<Rightarrow> string \<Rightarrow> 'f py_number \<Rightarrow>
     py_error + 'f py_number" where
  "search_number F pattern content old =
     (case re_search pattern content of None \<Rightarrow> Inr old | Some g \<Rightarrow> number_of_str F g)"

definition parse_metrics ::
  "'f float_ops \<Rightarrow> (string \<rightharpoonup> string) \<Rightarrow> string \<Rightarrow> string list \<times> (py_error + 'f PlotMetrics)" where
  "parse_metrics F fs log_file =
     (let metrics = default_plot_metrics F
      in case fs log_file of
           None \<Rightarrow> ([], Inr metrics)
         | Some content \<Rightarrow>
             ([],
              and_then (search_number F (match_int_after ''Total Writes:'' []) content
                          (pm_total_writes metrics)) (\<lambda>w.
              and_then (search_number F (match_int_after ''Total Reads:'' []) content
                          (pm_total_reads metrics)) (\<lambda>r.
              and_then (search_number F match_throughput content (pm_throughput metrics)) (\<lambda>t.
              and_then (search_number F (match_int_after ''Passed:'' []) content
                          (pm_tests_passed metrics)) (\<lambda>p.
              and_then (search_number F (match_int_after ''Failed:'' []) content
                          (pm_tests_failed metrics)) (\<lambda>f.
              (let metrics = metrics\<lparr>pm_total_writes := w, pm_total_reads := r, pm_throughput := t,
                                      pm_tests_passed := p, pm_tests_failed := f\<rparr>
               in case re_search match_peak content of
                    Some (g1, g2) \<Rightarrow>
                      Inr (metrics\<lparr>pm_peak_occupancy := int_of_digits g1,
                                   pm_fifo_depth := int_of_digits g2\<rparr>)
                  | None \<Rightarrow> Inr metrics))))))))"

section \<open>An instance of the floating-point operations\<close>

text \<open>
  The theorems below hold for every choice of the floating-point operations. Where an example
  is evaluated, decimal fixed-point numbers of two places (an integer counting hundredths)
  stand in for them; \<open>fixed_of_str\<close> accepts what \<^verbatim>\<open>float\<close> accepts among the strings of
  digits and dots: at least one digit and at most one dot.
\<close>

definition fixed_of_str :: "string \<Rightarrow> int option" where
  "fixed_of_str s =
     (let whole = takeWhile is_digit s;
          r = dropWhile is_digit s
      in if r = [] then (if whole = [] then None else Some (int_of_digits whole * 100))
         else if hd r = CHR ''.'' \<and> list_all is_digit (tl r) \<and> (whole \<noteq> [] \<or> tl r \<noteq> [])
         then Some (int_of_digits whole * 100 + int_of_digits (take 2 (tl r @ ''00'')))
         else None)"

definition fixed_fmt_2f :: "int \<Rightarrow> string" where
  "fixed_fmt_2f x =
     str_int (x div 100) @ ''.'' @
     [digit_char (nat (x mod 100) div 10), digit_char (nat (x mod 100) mod 10)]"

definition fixed_point :: "int float_ops" where
  "fixed_point =
     \<lparr>fzero = 0, float_of_str = fixed_of_str, fpositive = (\<lambda>x. x > 0), fmt_2f = fixed_fmt_2f,
      int_truediv = (\<lambda>a b. a * 100 div b), fmul_int = (\<lambda>x k. x * k)\<rparr>"

section \<open>Notions used in the statements\<close>

text \<open>
  The three classification rules in the words of the specification, and the count of a class:
  the sum of the counts of the cell types whose name satisfies the rule.
\<close>

definition is_flip_flop :: "string \<Rightarrow> bool" where
  "is_flip_flop cell_type \<longleftrightarrow> str_in ''DFF'' cell_type \<or> str_in ''FF'' cell_type"

definition is_mux :: "string \<Rightarrow> bool" where
  "is_mux cell_type \<longleftrightarrow> str_in ''MUX'' cell_type"

definition is_logic :: "string \<Rightarrow> bool" where
  "is_logic cell_type \<longleftrightarrow>
     (\<exists>x \<in> set [''LUT'', ''AND'', ''OR'', ''XOR'', ''NOT'', ''NAND'', ''NOR'']. str_in x cell_type)"

text \<open>The rule of \<^verbatim>\<open>count_logic\<close> in synthesis\_summary.py, with its own list of gate names.\<close>

definition is_logic_gate :: "string \<Rightarrow> bool" where
  "is_logic_gate cell_type \<longleftrightarrow>
     (\<exists>x \<in> set [''AND'', ''OR'', ''XOR'', ''NAND'', ''NOR'', ''XNOR'', ''NOT'']. str_in x cell_type)"

definition class_count :: "(string \<Rightarrow> bool) \<Rightarrow> (string \<times> int) list \<Rightarrow> int" where
  "class_count rule cell_dict = sum_list (map snd (filter (\<lambda>(cell_type, count). rule cell_type) cell_dict))"

text \<open>
  The test of the alternative matching, and the key a scenario is matched to: the case-folded
  description when it is a key of the dictionary, otherwise the first key in iteration order
  that passes the test of the alternative matching. The outcome of a key in the log is the
  outcome of the last result line whose stripped, case-folded name is the key.
\<close>

definition name_overlaps :: "TestScenario \<Rightarrow> string \<Rightarrow> bool" where
  "name_overlaps test key \<longleftrightarrow> str_in (short_name test) key \<or> str_in key (short_name test)"

definition matched_key :: "(string \<times> bool) list \<Rightarrow> TestScenario \<Rightarrow> string option" where
  "matched_key executed_tests test =
     (if lower (ts_description test) \<in> set (map fst executed_tests)
      then Some (lower (ts_description test))
      else map_option fst (find (\<lambda>(key, passed). name_overlaps test key) executed_tests))"

definition last_outcome :: "(string \<times> string) list \<Rightarrow> string \<Rightarrow> bool option" where
  "last_outcome matches key =
     (let hits = filter (\<lambda>(g1, g2). lower (strip g1) = key) matches
      in if hits = [] then None else Some (snd (last hits) = ''PASS''))"

section \<open>Facts about the Python values\<close>

text \<open>\<open>str_in\<close> is the substring relation.\<close>

lemma str_in_iff: "str_in sub s \<longleftrightarrow> (\<exists>pre post. s = pre @ sub @ post)"
proof (induction s)
  case Nil
  show ?case by auto
next
  case (Cons c cs)
  show ?case
  proof
    assume "str_in sub (c # cs)"
    then consider "prefix sub (c # cs)" | "str_in sub cs" by auto
    then show "\<exists>pre post. c # cs = pre @ sub @ post"
    proof cases
      case 1
      then obtain post where "c # cs = sub @ post" by (auto simp: prefix_def)
      then have "c # cs = [] @ sub @ post" by simp
      then show ?thesis by blast
    next
      case 2
      with Cons obtain pre post where "cs = pre @ sub @ post" by auto
      then have "c # cs = (c # pre) @ sub @ post" by simp
      then show ?thesis by blast
    qed
  next
    assume "\<exists>pre post. c # cs = pre @ sub @ post"
    then obtain pre post where eq: "c # cs = pre @ sub @ post" by auto
    show "str_in sub (c # cs)"
    proof (cases pre)
      case Nil
      with eq have "prefix sub (c # cs)" by (simp add: prefix_def)
      then show ?thesis by simp
    next
      case (Cons p pre')
      with eq have "cs = pre' @ sub @ post" by simp
      with Cons.IH have "str_in sub cs" by blast
      then show ?thesis by simp
    qed
  qed
qed

text \<open>Floor division on integers is the floor of the exact quotient.\<close>

lemma py_floordiv_floor:
  "b \<noteq> 0 \<Longrightarrow> py_floordiv a b = Inr \<lfloor>real_of_int a / real_of_int b\<rfloor>"
  by (simp add: py_floordiv_def floor_divide_of_int_eq)

text \<open>Counting by a sum of ones is the length of the filtered list.\<close>

lemma sum_ones_length: "sum_list (map (\<lambda>t. 1) xs) = int (length xs)"
  by (induction xs) auto

lemma count_passed_length: "count_passed tests = int (length (filter tr_passed tests))"
  by (simp add: count_passed_def sum_ones_length)

lemma filter_length_all: "length (filter P xs) = length xs \<longleftrightarrow> (\<forall>x\<in>set xs. P x)"
proof
  assume eq: "length (filter P xs) = length xs"
  show "\<forall>x\<in>set xs. P x"
  proof
    fix x assume "x \<in> set xs"
    then show "P x" using eq length_filter_less [of x xs P] by auto
  qed
next
  assume "\<forall>x\<in>set xs. P x"
  then show "length (filter P xs) = length xs" by simp
qed

lemma count_passed_all:
  "count_passed tests = int (length tests) \<longleftrightarrow> (\<forall>t\<in>set tests. tr_passed t)"
  by (simp add: count_passed_length filter_length_all)

section \<open>The performance report\<close>

text \<open>
  The metrics block of the synchronous section when the depth is not zero: the percentage
  printed is the floor of \<open>peak_occupancy * 100 / fifo_depth\<close>.
\<close>

lemma sync_metrics_block_nonzero_depth:
  assumes "total_writes m > 0" and "fifo_depth m \<noteq> 0"
  shows "sync_metrics_block F m =
           Inr ([[], ''Performance Metrics:'',
                 ''  Total Writes:    '' @ str_int (total_writes m),
                 ''  Total Reads:     '' @ str_int (total_reads m),
                 peak_line (peak_occupancy m) (fifo_depth m)
                   \<lfloor>real_of_int (peak_occupancy m * 100) / real_of_int (fifo_depth m)\<rfloor>]
                @ throughput_lines F m)"
  using assms by (simp add: sync_metrics_block_def and_then_def py_floordiv_floor)

lemma sync_metrics_block_zero_depth:
  assumes "total_writes m > 0" and "fifo_depth m = 0"
  shows "sync_metrics_block F m = Inl ZeroDivisionError"
  using assms by (simp add: sync_metrics_block_def and_then_def py_floordiv_def)

lemma test_results_block_total: "\<exists>ls. test_results_block tests = Inr ls"
  by (simp add: test_results_block_def and_then_def py_floordiv_def Let_def)

lemma report_lines_zero_depth:
  assumes "total_writes sync_metrics > 0" and "fifo_depth sync_metrics = 0"
  shows "report_lines F now (sync_tests, sync_metrics) async_results = Inl ZeroDivisionError"
proof -
  obtain ls where "test_results_block sync_tests = Inr ls"
    using test_results_block_total by blast
  then show ?thesis
    using assms
    by (simp add: report_lines_def and_then_def sync_metrics_block_zero_depth split: prod.splits)
qed

lemma occupancy_example_12_of_16:
  "sync_metrics_block fixed_point
     \<lparr>total_writes = 40, total_reads = 39, peak_occupancy = 12, fifo_depth = 16,
      throughput_mbps = 0, success_rate = 0\<rparr>
   = Inr [[], ''Performance Metrics:'', ''  Total Writes:    40'', ''  Total Reads:     39'',
          ''  Peak Occupancy:  12/16 (75%)'']"
  by code_simp

text \<open>
  C1. The occupancy percentage is computed as \<open>peak_occupancy * 100 // fifo_depth\<close> with no
  test of the divisor. A log with the lines \<^verbatim>\<open>Total Writes: 5\<close> and
  \<^verbatim>\<open>Peak Occupancy: 0/0\<close> is parsed to metrics with \<open>fifo_depth = 0\<close>, and the report
  generator raises \<^verbatim>\<open>ZeroDivisionError\<close> on them instead of printing 0.
\<close>

theorem occupancy_zero_depth_raises:
  "snd (parse_sync_log fixed_point
          [''fifo_sync.log'' \<mapsto> ''Total Writes: 5'' @ [CHR 0x0A] @ ''Peak Occupancy: 0/0'']
          ''fifo_sync.log'')
     = Inr ([], \<lparr>total_writes = 5, total_reads = 0, peak_occupancy = 0, fifo_depth = 0,
                 throughput_mbps = 0, success_rate = 0\<rparr>)
   \<and> generate_report fixed_point ''2026-01-01 00:00:00''
       ([], \<lparr>total_writes = 5, total_reads = 0, peak_occupancy = 0, fifo_depth = 0,
             throughput_mbps = 0, success_rate = 0\<rparr>)
       ([], default_metrics fixed_point)
     = Inl ZeroDivisionError"
  by code_simp

text \<open>
  C2. The first line of the overall status is \<^verbatim>\<open>NO SIMULATION DATA FOUND\<close> exactly when both
  test lists are empty, \<^verbatim>\<open>ALL TESTS PASSED\<close> exactly when both are non-empty and every test
  of both passed, and \<^verbatim>\<open>SOME TESTS FAILED\<close> in every other case.
\<close>

theorem overall_status_selection:
  "hd (overall_status sync_tests async_tests) =
     (if sync_tests = [] \<and> async_tests = [] then ''OVERALL STATUS: NO SIMULATION DATA FOUND''
      else if sync_tests \<noteq> [] \<and> async_tests \<noteq> [] \<and>
              (\<forall>t\<in>set sync_tests. tr_passed t) \<and> (\<forall>t\<in>set async_tests. tr_passed t)
      then ''OVERALL STATUS: ALL TESTS PASSED''
      else ''OVERALL STATUS: SOME TESTS FAILED'')"
proof -
  have s: "count_passed sync_tests = int (length sync_tests) \<longleftrightarrow>
             (\<forall>t\<in>set sync_tests. tr_passed t)"
    by (rule count_passed_all)
  have a: "count_passed async_tests = int (length async_tests) \<longleftrightarrow>
             (\<forall>t\<in>set async_tests. tr_passed t)"
    by (rule count_passed_all)
  show ?thesis
    unfolding overall_status_def Let_def
    by (cases "sync_tests = []"; cases "async_tests = []"; simp add: s a)
qed

theorem overall_status_selection_witness:
  "hd (overall_status [] []) = ''OVERALL STATUS: NO SIMULATION DATA FOUND''
   \<and> hd (overall_status [\<lparr>tr_name = ''Reset'', tr_passed = True, tr_details = []\<rparr>]
                          [\<lparr>tr_name = ''Reset'', tr_passed = True, tr_details = []\<rparr>])
       = ''OVERALL STATUS: ALL TESTS PASSED''
   \<and> hd (overall_status [\<lparr>tr_name = ''Reset'', tr_passed = True, tr_details = []\<rparr>] [])
       = ''OVERALL STATUS: SOME TESTS FAILED''
   \<and> hd (overall_status [\<lparr>tr_name = ''Reset'', tr_passed = True, tr_details = []\<rparr>]
                          [\<lparr>tr_name = ''Fill'', tr_passed = False, tr_details = []\<rparr>])
       = ''OVERALL STATUS: SOME TESTS FAILED''"
  using overall_status_selection [of "[]" "[]"]
    overall_status_selection [of "[\<lparr>tr_name = ''Reset'', tr_passed = True, tr_details = []\<rparr>]"
      "[\<lparr>tr_name = ''Reset'', tr_passed = True, tr_details = []\<rparr>]"]
    overall_status_selection [of "[\<lparr>tr_name = ''Reset'', tr_passed = True, tr_details = []\<rparr>]" "[]"]
    overall_status_selection [of "[\<lparr>tr_name = ''Reset'', tr_passed = True, tr_details = []\<rparr>]"
      "[\<lparr>tr_name = ''Fill'', tr_passed = False, tr_details = []\<rparr>]"]
  by simp

text \<open>The status lines stand at the end of the report, before the closing rule.\<close>

lemma report_ends_with_status:
  assumes "report_lines F now (sync_tests, sync_metrics) (async_tests, async_metrics) = Inr ls"
  shows "\<exists>before. ls = before @ overall_status sync_tests async_tests @ [rule_line CHR ''='']"
proof -
  from assms obtain a b c where
    "ls = ([rule_line CHR ''='', ''FIFO PROJECT - PERFORMANCE ANALYSIS REPORT'', rule_line CHR ''='',
            ''Generated: '' @ now, [],
            rule_line CHR ''-'', ''SYNCHRONOUS FIFO RESULTS'', rule_line CHR ''-'']
           @ a @ b @
           [[], rule_line CHR ''-'', ''ASYNCHRONOUS FIFO RESULTS'', rule_line CHR ''-'']
           @ c @ async_metrics_block F async_metrics @
           [[], rule_line CHR ''-'', ''COMPARISON SUMMARY'', rule_line CHR ''-'', []]
           @ comparison_lines sync_tests sync_metrics async_tests async_metrics @
           [[], rule_line CHR ''=''])
          @ overall_status sync_tests async_tests @ [rule_line CHR ''='']"
    by (auto simp: report_lines_def and_then_def split: sum.splits)
  then show ?thesis by blast
qed

text \<open>
  The guarded percentage of the coverage report never raises: it is the floor of
  \<open>part * 100 / whole\<close> for a positive \<open>whole\<close> and 0 otherwise.
\<close>

lemma guarded_percent_floor:
  "guarded_percent part whole =
     Inr (if whole > 0 then \<lfloor>real_of_int (part * 100) / real_of_int whole\<rfloor> else 0)"
  by (simp add: guarded_percent_def py_floordiv_floor)

lemma count_executed_length: "count_executed tests = int (length (filter ts_executed tests))"
  by (simp add: count_executed_def sum_ones_length)

lemma count_scenarios_passed_length:
  "count_scenarios_passed tests = int (length (filter ts_passed tests))"
  by (simp add: count_scenarios_passed_def sum_ones_length)

text \<open>
  C5. In the performance report the summary line of a non-empty test list shows
  \<open>floor (passed * 100 / total)\<close>, and an empty list has no summary line (the division is
  not reached). In the coverage report the pass rate is \<open>floor (passed * 100 / executed)\<close>,
  and 0 when no test was executed. Neither computation raises.
\<close>

theorem pass_rate_floor_division:
  "test_results_block tests =
     Inr (if tests = [] then []
          else [[], ''Test Results:''] @ map test_line tests @
               [[], summary_line (int (length (filter tr_passed tests))) (int (length tests))
                      \<lfloor>real (length (filter tr_passed tests) * 100) / real (length tests)\<rfloor>])
   \<and> coverage_summary sync_tests async_tests =
       (let executed = int (length (filter ts_executed (sync_tests @ async_tests)));
            defined = int (length (sync_tests @ async_tests));
            passed = int (length (filter ts_passed (sync_tests @ async_tests)))
        in Inr [rule_line CHR ''='',
                ''OVERALL COVERAGE: '' @ str_int executed @ ''/'' @ str_int defined @
                  '' tests executed ('' @
                  str_int (if defined > 0
                           then \<lfloor>real_of_int (executed * 100) / real_of_int defined\<rfloor> else 0) @
                  ''%)'',
                ''PASS RATE: '' @ str_int passed @ ''/'' @ str_int executed @
                  '' tests passed ('' @
                  str_int (if executed > 0
                           then \<lfloor>real_of_int (passed * 100) / real_of_int executed\<rfloor> else 0) @
                  ''%)'',
                rule_line CHR ''=''])"
proof
  show "test_results_block tests =
     Inr (if tests = [] then []
          else [[], ''Test Results:''] @ map test_line tests @
               [[], summary_line (int (length (filter tr_passed tests))) (int (length tests))
                      \<lfloor>real (length (filter tr_passed tests) * 100) / real (length tests)\<rfloor>])"
  proof (cases "tests = []")
    case True
    then show ?thesis by (simp add: test_results_block_def)
  next
    case False
    have "\<lfloor>real (length (filter tr_passed tests) * 100) / real (length tests)\<rfloor>
          = int (length (filter tr_passed tests)) * 100 div int (length tests)"
      using floor_divide_of_int_eq
        [of "int (length (filter tr_passed tests)) * 100" "int (length tests)", where ?'a = real]
      by simp
    with False show ?thesis
      by (simp add: test_results_block_def Let_def and_then_def py_floordiv_def
          count_passed_length)
  qed
next
  show "coverage_summary sync_tests async_tests =
       (let executed = int (length (filter ts_executed (sync_tests @ async_tests)));
            defined = int (length (sync_tests @ async_tests));
            passed = int (length (filter ts_passed (sync_tests @ async_tests)))
        in Inr [rule_line CHR ''='',
                ''OVERALL COVERAGE: '' @ str_int executed @ ''/'' @ str_int defined @
                  '' tests executed ('' @
                  str_int (if defined > 0
                           then \<lfloor>real_of_int (executed * 100) / real_of_int defined\<rfloor> else 0) @
                  ''%)'',
                ''PASS RATE: '' @ str_int passed @ ''/'' @ str_int executed @
                  '' tests passed ('' @
                  str_int (if executed > 0
                           then \<lfloor>real_of_int (passed * 100) / real_of_int executed\<rfloor> else 0) @
                  ''%)'',
                rule_line CHR ''=''])"
    unfolding coverage_summary_def Let_def guarded_percent_floor and_then_def
      count_executed_length count_scenarios_passed_length
    by simp
qed

theorem pass_rate_floor_division_witness:
  "test_results_block
     [\<lparr>tr_name = ''Reset'', tr_passed = True, tr_details = []\<rparr>,
      \<lparr>tr_name = ''Fill'', tr_passed = True, tr_details = []\<rparr>,
      \<lparr>tr_name = ''Drain'', tr_passed = False, tr_details = []\<rparr>]
   = Inr [[], ''Test Results:'', ''  [PASS] Reset'', ''  [PASS] Fill'', ''  [FAIL] Drain'', [],
          ''Summary: 2/3 tests passed (66%)'']
   \<and> coverage_summary
       [\<lparr>ts_name = ''test_reset'', ts_category = ''functional'', ts_description = ''Reset'',
         ts_executed = True, ts_passed = True\<rparr>,
        \<lparr>ts_name = ''test_fill'', ts_category = ''functional'', ts_description = ''Fill'',
         ts_executed = True, ts_passed = True\<rparr>,
        \<lparr>ts_name = ''test_drain'', ts_category = ''functional'', ts_description = ''Drain'',
         ts_executed = True, ts_passed = False\<rparr>]
       []
     = Inr [rule_line CHR ''='', ''OVERALL COVERAGE: 3/3 tests executed (100%)'',
            ''PASS RATE: 2/3 tests passed (66%)'', rule_line CHR ''='']
   \<and> coverage_summary [] []
     = Inr [rule_line CHR ''='', ''OVERALL COVERAGE: 0/0 tests executed (0%)'',
            ''PASS RATE: 0/0 tests passed (0%)'', rule_line CHR ''='']"
proof -
  have n: "str_int 0 = ''0''" "str_int 2 = ''2''" "str_int 3 = ''3''" "str_int 66 = ''66''"
    "str_int 100 = ''100''"
    by code_simp+
  show ?thesis
    using pass_rate_floor_division
      [of "[\<lparr>tr_name = ''Reset'', tr_passed = True, tr_details = []\<rparr>,
            \<lparr>tr_name = ''Fill'', tr_passed = True, tr_details = []\<rparr>,
            \<lparr>tr_name = ''Drain'', tr_passed = False, tr_details = []\<rparr>]"
          "[\<lparr>ts_name = ''test_reset'', ts_category = ''functional'', ts_description = ''Reset'',
             ts_executed = True, ts_passed = True\<rparr>,
            \<lparr>ts_name = ''test_fill'', ts_category = ''functional'', ts_description = ''Fill'',
             ts_executed = True, ts_passed = True\<rparr>,
            \<lparr>ts_name = ''test_drain'', ts_category = ''functional'', ts_description = ''Drain'',
             ts_executed = True, ts_passed = False\<rparr>]"
          "[]"]
      pass_rate_floor_division [of "[]" "[]" "[]"]
    by (simp add: n summary_line_def test_line_def)
qed

text \<open>
  C9, as stated, fails twice. Metrics with \<open>total_reads = 5\<close> and \<open>total_writes = 0\<close> have a
  non-zero counter, and neither section prints a metrics block for them. For metrics with
  positive \<open>total_writes\<close> the synchronous block has a Peak Occupancy line and the
  asynchronous block has none.
\<close>

theorem metrics_block_counterexample:
  "total_reads \<lparr>total_writes = 0, total_reads = 5, peak_occupancy = 0, fifo_depth = 16,
                throughput_mbps = 0, success_rate = 0\<rparr> \<noteq> 0
   \<and> sync_metrics_block fixed_point
       \<lparr>total_writes = 0, total_reads = 5, peak_occupancy = 0, fifo_depth = 16,
        throughput_mbps = 0, success_rate = 0\<rparr> = Inr []
   \<and> async_metrics_block fixed_point
       \<lparr>total_writes = 0, total_reads = 5, peak_occupancy = 0, fifo_depth = 16,
        throughput_mbps = 0, success_rate = 0\<rparr> = []
   \<and> sync_metrics_block fixed_point
       \<lparr>total_writes = 40, total_reads = 39, peak_occupancy = 12, fifo_depth = 16,
        throughput_mbps = 1250, success_rate = 0\<rparr>
     = Inr [[], ''Performance Metrics:'', ''  Total Writes:    40'', ''  Total Reads:     39'',
            ''  Peak Occupancy:  12/16 (75%)'', ''  Throughput:      12.50 MB/s'']
   \<and> async_metrics_block fixed_point
       \<lparr>total_writes = 40, total_reads = 39, peak_occupancy = 12, fifo_depth = 16,
        throughput_mbps = 1250, success_rate = 0\<rparr>
     = [[], ''Performance Metrics:'', ''  Total Writes:    40'', ''  Total Reads:     39'',
        ''  Throughput:      12.50 MB/s'']"
  by code_simp

text \<open>
  C9, amended. A section has its metrics block exactly when \<open>total_writes\<close> is positive; no
  other field is consulted. The asynchronous block is the heading, the Total Writes and Total
  Reads lines and, for a positive throughput, the Throughput line; these are the lines of the
  synchronous block other than its Peak Occupancy line.
\<close>

theorem metrics_block_gate:
  "(async_metrics_block F m \<noteq> [] \<longleftrightarrow> total_writes m > 0)
   \<and> (sync_metrics_block F m \<noteq> Inr [] \<longleftrightarrow> total_writes m > 0)
   \<and> (total_writes m > 0 \<longrightarrow>
        async_metrics_block F m =
          [[], ''Performance Metrics:'',
           ''  Total Writes:    '' @ str_int (total_writes m),
           ''  Total Reads:     '' @ str_int (total_reads m)]
          @ (if fpositive F (throughput_mbps m)
             then [''  Throughput:      '' @ fmt_2f F (throughput_mbps m) @ '' MB/s'']
             else []))
   \<and> (\<forall>ls. sync_metrics_block F m = Inr ls \<longrightarrow>
        async_metrics_block F m = filter (\<lambda>l. \<not> prefix ''  Peak Occupancy:'' l) ls)"
proof (intro conjI allI impI)
  show "async_metrics_block F m \<noteq> [] \<longleftrightarrow> total_writes m > 0"
    by (simp add: async_metrics_block_def)
  show "sync_metrics_block F m \<noteq> Inr [] \<longleftrightarrow> total_writes m > 0"
    by (simp add: sync_metrics_block_def and_then_def py_floordiv_def)
  show "async_metrics_block F m =
          [[], ''Performance Metrics:'',
           ''  Total Writes:    '' @ str_int (total_writes m),
           ''  Total Reads:     '' @ str_int (total_reads m)]
          @ (if fpositive F (throughput_mbps m)
             then [''  Throughput:      '' @ fmt_2f F (throughput_mbps m) @ '' MB/s'']
             else [])"
    if "total_writes m > 0"
    using that by (simp add: async_metrics_block_def throughput_lines_def)
  show "async_metrics_block F m = filter (\<lambda>l. \<not> prefix ''  Peak Occupancy:'' l) ls"
    if "sync_metrics_block F m = Inr ls" for ls
    using that
    by (auto simp: sync_metrics_block_def async_metrics_block_def and_then_def py_floordiv_def
        throughput_lines_def peak_line_def split: if_splits)
qed

theorem metrics_block_gate_witness:
  "async_metrics_block fixed_point
       \<lparr>total_writes = 40, total_reads = 39, peak_occupancy = 12, fifo_depth = 16,
        throughput_mbps = 1250, success_rate = 0\<rparr>
     = [[], ''Performance Metrics:'', ''  Total Writes:    40'', ''  Total Reads:     39'',
        ''  Throughput:      12.50 MB/s'']
   \<and> async_metrics_block fixed_point
       \<lparr>total_writes = 40, total_reads = 39, peak_occupancy = 12, fifo_depth = 16,
        throughput_mbps = 1250, success_rate = 0\<rparr>
     = filter (\<lambda>l. \<not> prefix ''  Peak Occupancy:'' l)
         [[], ''Performance Metrics:'', ''  Total Writes:    40'', ''  Total Reads:     39'',
          ''  Peak Occupancy:  12/16 (75%)'', ''  Throughput:      12.50 MB/s'']"
proof -
  let ?m = "\<lparr>total_writes = 40, total_reads = 39, peak_occupancy = 12, fifo_depth = 16,
             throughput_mbps = 1250::int, success_rate = 0\<rparr>"
  have w: "total_writes ?m > 0" by simp
  have s: "sync_metrics_block fixed_point ?m
             = Inr [[], ''Performance Metrics:'', ''  Total Writes:    40'',
                    ''  Total Reads:     39'', ''  Peak Occupancy:  12/16 (75%)'',
                    ''  Throughput:      12.50 MB/s'']"
    by code_simp
  have n: "str_int 40 = ''40''" "str_int 39 = ''39''" "fixed_fmt_2f 1250 = ''12.50''"
    by code_simp+
  from metrics_block_gate [of fixed_point ?m] w s n show ?thesis
    by (simp add: fixed_point_def)
qed

section \<open>The log parser\<close>

text \<open>A pattern that starts with a label finds nothing in a text without the label.\<close>

lemma re_search_needs_label:
  assumes "\<And>t. m t \<noteq> None \<Longrightarrow> prefix label t" and "\<not> str_in label s"
  shows "re_search m s = None"
  using assms(2)
proof (induction s)
  case Nil
  then have "\<not> prefix label []" by simp
  with assms(1) have "m [] = None" by blast
  then show ?case by simp
next
  case (Cons c cs)
  then have "\<not> prefix label (c # cs)" and "\<not> str_in label cs" by auto
  with assms(1) Cons.IH have "m (c # cs) = None" and "re_search m cs = None" by blast+
  then show ?case by simp
qed

lemma match_int_after_label: "match_int_after label trail t = Some g \<Longrightarrow> prefix label t"
  by (auto simp: match_int_after_def match_lit_def split: if_splits)

lemma match_peak_label: "match_peak t = Some g \<Longrightarrow> prefix ''Peak Occupancy:'' t"
  unfolding match_peak_def match_lit_def by (cases "prefix ''Peak Occupancy:'' t") simp_all

lemma match_throughput_label: "match_throughput t = Some g \<Longrightarrow> prefix ''Throughput:'' t"
  unfolding match_throughput_def match_lit_def by (cases "prefix ''Throughput:'' t") simp_all

lemma search_int_without_label:
  "\<not> str_in label s \<Longrightarrow> re_search (match_int_after label trail) s = None"
  by (rule re_search_needs_label [where label = label]) (auto dest: match_int_after_label)

lemma search_peak_without_label:
  "\<not> str_in ''Peak Occupancy:'' s \<Longrightarrow> re_search match_peak s = None"
  by (rule re_search_needs_label [where label = "''Peak Occupancy:''"])
    (auto dest: match_peak_label)

lemma search_throughput_without_label:
  "\<not> str_in ''Throughput:'' s \<Longrightarrow> re_search match_throughput s = None"
  by (rule re_search_needs_label [where label = "''Throughput:''"])
    (auto dest: match_throughput_label)

text \<open>The parser returns unless \<^verbatim>\<open>float\<close> rejects a matched group.\<close>

lemma parse_content_returns:
  assumes "\<And>g. re_search match_throughput content = Some g \<Longrightarrow> float_of_str F g \<noteq> None"
    and "\<And>g. re_search (match_int_after ''Success Rate:'' ''%'') content = Some g
           \<Longrightarrow> float_of_str F g \<noteq> None"
  shows "\<exists>tests m. parse_content F content = Inr (tests, m)"
  using assms
  by (auto simp: parse_content_def Let_def and_then_def set_throughput_def set_success_def
      split: option.splits sum.splits)

lemma parse_content_value_error:
  "parse_content fixed_point ''Throughput: 1.2.3 MB/s'' = Inl ValueError"
  by code_simp

text \<open>
  C7. For a log file that does not exist, \<open>parse_sync_log\<close> (and \<open>parse_async_log\<close>, which
  calls it) prints one warning line and returns the empty test list with the default
  metrics: every counter zero and \<open>fifo_depth = 16\<close>. The result is a value, not an error.
\<close>

theorem missing_log_file_defaults:
  assumes "fs log_file = None"
  shows "parse_sync_log F fs log_file =
           ([''Warning: Log file not found: '' @ log_file],
            Inr ([], \<lparr>total_writes = 0, total_reads = 0, peak_occupancy = 0, fifo_depth = 16,
                       throughput_mbps = fzero F, success_rate = fzero F\<rparr>))
         \<and> parse_async_log F fs log_file = parse_sync_log F fs log_file"
  using assms by (simp add: parse_sync_log_def parse_async_log_def default_metrics_def)

theorem missing_log_file_defaults_witness:
  "parse_sync_log fixed_point Map.empty ''results/logs/fifo_sync.log'' =
     ([''Warning: Log file not found: results/logs/fifo_sync.log''],
      Inr ([], \<lparr>total_writes = 0, total_reads = 0, peak_occupancy = 0, fifo_depth = 16,
                 throughput_mbps = 0, success_rate = 0\<rparr>))
   \<and> parse_async_log fixed_point Map.empty ''results/logs/fifo_sync.log'' =
       parse_sync_log fixed_point Map.empty ''results/logs/fifo_sync.log''"
  using missing_log_file_defaults [of Map.empty "''results/logs/fifo_sync.log''" fixed_point]
  by (simp add: fixed_point_def)

text \<open>
  The parser of plot\_results.py returns its defaults for a missing file as well, without
  printing anything; the report generator accepts the results of two missing files.
\<close>

lemma parse_metrics_missing_file:
  "fs log_file = None \<Longrightarrow> parse_metrics F fs log_file = ([], Inr (default_plot_metrics F))"
  by (simp add: parse_metrics_def)

lemma report_of_missing_logs:
  "\<exists>ls. report_lines F now ([], default_metrics F) ([], default_metrics F) = Inr ls
        \<and> ''OVERALL STATUS: NO SIMULATION DATA FOUND'' \<in> set ls"
  by (simp add: report_lines_def and_then_def test_results_block_def sync_metrics_block_def
      default_metrics_def overall_status_def)

text \<open>
  C8, as stated, fails: the parser stores the two numbers of the Peak Occupancy line as they
  are written and compares nothing. The line \<^verbatim>\<open>Peak Occupancy: 20/16\<close> matches both
  fields and gives \<open>peak_occupancy = 20\<close> above \<open>fifo_depth = 16\<close>.
\<close>

theorem peak_above_depth_counterexample:
  "re_search match_peak ''Peak Occupancy: 20/16'' = Some (''20'', ''16'')
   \<and> snd (parse_sync_log fixed_point [''fifo_sync.log'' \<mapsto> ''Peak Occupancy: 20/16'']
            ''fifo_sync.log'')
     = Inr ([], \<lparr>total_writes = 0, total_reads = 0, peak_occupancy = 20, fifo_depth = 16,
                 throughput_mbps = 0, success_rate = 0\<rparr>)
   \<and> \<not> peak_occupancy \<lparr>total_writes = 0, total_reads = 0, peak_occupancy = 20, fifo_depth = 16,
                         throughput_mbps = 0::int, success_rate = 0\<rparr>
       \<le> fifo_depth \<lparr>total_writes = 0, total_reads = 0, peak_occupancy = 20, fifo_depth = 16,
                      throughput_mbps = 0::int, success_rate = 0\<rparr>"
  by code_simp

text \<open>
  What the parser leaves in the metrics: a field whose pattern finds no match keeps its
  default, and the two fields of the Peak Occupancy line are the numbers matched.
\<close>

lemma parse_content_fields:
  assumes p: "parse_content F content = Inr (tests, m)"
  shows "(re_search (match_int_after ''Total Writes:'' []) content = None \<longrightarrow> total_writes m = 0)
       \<and> (re_search (match_int_after ''Total Reads:'' []) content = None \<longrightarrow> total_reads m = 0)
       \<and> (re_search match_peak content = None \<longrightarrow> peak_occupancy m = 0 \<and> fifo_depth m = 16)
       \<and> (re_search match_throughput content = None \<longrightarrow> throughput_mbps m = fzero F)
       \<and> (re_search (match_int_after ''Success Rate:'' ''%'') content = None \<longrightarrow>
            success_rate m = fzero F)
       \<and> (\<forall>g1 g2. re_search match_peak content = Some (g1, g2) \<longrightarrow>
            peak_occupancy m = int_of_digits g1 \<and> fifo_depth m = int_of_digits g2)"
proof -
  define m3 where
    "m3 = set_peak content (set_reads content (set_writes content (default_metrics F)))"
  from p obtain m4 where
    t: "set_throughput F content m3 = Inr m4" and s: "set_success F content m4 = Inr m"
    by (auto simp: parse_content_def Let_def and_then_def m3_def split: sum.splits)
  have ints: "total_writes m = total_writes m3" "total_reads m = total_reads m3"
    "peak_occupancy m = peak_occupancy m3" "fifo_depth m = fifo_depth m3"
    using t s
    by (auto simp: set_throughput_def set_success_def split: option.splits)
  have thr: "re_search match_throughput content = None \<Longrightarrow> throughput_mbps m = fzero F"
    using t s
    by (auto simp: set_throughput_def set_success_def m3_def set_peak_def set_reads_def
        set_writes_def default_metrics_def split: option.splits)
  have suc: "re_search (match_int_after ''Success Rate:'' ''%'') content = None
      \<Longrightarrow> success_rate m = fzero F"
    using t s
    by (auto simp: set_throughput_def set_success_def m3_def set_peak_def set_reads_def
        set_writes_def default_metrics_def split: option.splits)
  have w: "re_search (match_int_after ''Total Writes:'' []) content = None
      \<Longrightarrow> total_writes m3 = 0"
    by (auto simp: m3_def set_peak_def set_reads_def set_writes_def default_metrics_def
        split: option.splits)
  have r: "re_search (match_int_after ''Total Reads:'' []) content = None
      \<Longrightarrow> total_reads m3 = 0"
    by (auto simp: m3_def set_peak_def set_reads_def set_writes_def default_metrics_def
        split: option.splits)
  have pk0: "re_search match_peak content = None
      \<Longrightarrow> peak_occupancy m3 = 0 \<and> fifo_depth m3 = 16"
    by (auto simp: m3_def set_peak_def set_reads_def set_writes_def default_metrics_def
        split: option.splits)
  have pk: "re_search match_peak content = Some (g1, g2)
      \<Longrightarrow> peak_occupancy m3 = int_of_digits g1 \<and> fifo_depth m3 = int_of_digits g2" for g1 g2
    by (simp add: m3_def set_peak_def)
  show ?thesis
    using thr suc w r pk0 pk by (simp add: ints)
qed

text \<open>
  C8, amended. Whenever the parser returns metrics for a text, every field whose pattern
  finds no match has its default (0, and 16 for \<open>fifo_depth\<close>), and \<open>peak_occupancy\<close> and
  \<open>fifo_depth\<close> are the two numbers of the first Peak Occupancy match, as written.
\<close>

theorem parser_defaults_and_peak:
  assumes "fs log_file = Some content"
    and "snd (parse_sync_log F fs log_file) = Inr (tests, m)"
  shows "(re_search (match_int_after ''Total Writes:'' []) content = None \<longrightarrow> total_writes m = 0)
       \<and> (re_search (match_int_after ''Total Reads:'' []) content = None \<longrightarrow> total_reads m = 0)
       \<and> (re_search match_peak content = None \<longrightarrow> peak_occupancy m = 0 \<and> fifo_depth m = 16)
       \<and> (re_search match_throughput content = None \<longrightarrow> throughput_mbps m = fzero F)
       \<and> (re_search (match_int_after ''Success Rate:'' ''%'') content = None \<longrightarrow>
            success_rate m = fzero F)
       \<and> (\<forall>g1 g2. re_search match_peak content = Some (g1, g2) \<longrightarrow>
            peak_occupancy m = int_of_digits g1 \<and> fifo_depth m = int_of_digits g2)"
proof -
  from assms have "parse_content F content = Inr (tests, m)"
    by (simp add: parse_sync_log_def)
  then show ?thesis by (rule parse_content_fields)
qed

theorem parser_defaults_and_peak_witness:
  "snd (parse_sync_log fixed_point [''fifo_sync.log'' \<mapsto> ''Peak Occupancy: 20/16'']
          ''fifo_sync.log'')
     = Inr ([], \<lparr>total_writes = 0, total_reads = 0, peak_occupancy = 20, fifo_depth = 16,
                 throughput_mbps = 0, success_rate = 0\<rparr>)
   \<and> re_search (match_int_after ''Total Writes:'' []) ''Peak Occupancy: 20/16'' = None
   \<and> total_writes \<lparr>total_writes = 0, total_reads = 0, peak_occupancy = 20, fifo_depth = 16,
                   throughput_mbps = 0::int, success_rate = 0\<rparr> = 0
   \<and> re_search match_throughput ''Peak Occupancy: 20/16'' = None
   \<and> throughput_mbps \<lparr>total_writes = 0, total_reads = 0, peak_occupancy = 20, fifo_depth = 16,
                      throughput_mbps = 0::int, success_rate = 0\<rparr> = fzero fixed_point
   \<and> re_search match_peak ''Peak Occupancy: 20/16'' = Some (''20'', ''16'')
   \<and> peak_occupancy \<lparr>total_writes = 0, total_reads = 0, peak_occupancy = 20, fifo_depth = 16,
                     throughput_mbps = 0::int, success_rate = 0\<rparr> = int_of_digits ''20''
   \<and> fifo_depth \<lparr>total_writes = 0, total_reads = 0, peak_occupancy = 20, fifo_depth = 16,
                 throughput_mbps = 0::int, success_rate = 0\<rparr> = int_of_digits ''16''"
proof -
  let ?fs = "[''fifo_sync.log'' \<mapsto> ''Peak Occupancy: 20/16'']"
  let ?m = "\<lparr>total_writes = 0, total_reads = 0, peak_occupancy = 20, fifo_depth = 16,
             throughput_mbps = 0::int, success_rate = 0\<rparr>"
  have f: "?fs ''fifo_sync.log'' = Some ''Peak Occupancy: 20/16''" by simp
  have p: "snd (parse_sync_log fixed_point ?fs ''fifo_sync.log'') = Inr ([], ?m)"
    by code_simp
  have n: "re_search (match_int_after ''Total Writes:'' []) ''Peak Occupancy: 20/16'' = None"
    "re_search match_throughput ''Peak Occupancy: 20/16'' = None"
    "re_search match_peak ''Peak Occupancy: 20/16'' = Some (''20'', ''16'')"
    by code_simp+
  from parser_defaults_and_peak [OF f p] n p show ?thesis by blast
qed

text \<open>The same defaults, for a text in which the label of a field does not occur at all.\<close>

lemma parser_defaults_without_label:
  assumes "parse_content F content = Inr (tests, m)"
  shows "(\<not> str_in ''Total Writes:'' content \<longrightarrow> total_writes m = 0)
       \<and> (\<not> str_in ''Total Reads:'' content \<longrightarrow> total_reads m = 0)
       \<and> (\<not> str_in ''Peak Occupancy:'' content \<longrightarrow> peak_occupancy m = 0 \<and> fifo_depth m = 16)
       \<and> (\<not> str_in ''Throughput:'' content \<longrightarrow> throughput_mbps m = fzero F)
       \<and> (\<not> str_in ''Success Rate:'' content \<longrightarrow> success_rate m = fzero F)"
  using parse_content_fields [OF assms]
    search_int_without_label [of "''Total Writes:''" content "[]"]
    search_int_without_label [of "''Total Reads:''" content "[]"]
    search_int_without_label [of "''Success Rate:''" content "''%''"]
    search_peak_without_label [of content] search_throughput_without_label [of content]
  by auto

section \<open>Resource classification and comparison\<close>

lemma class_count_Cons:
  "class_count rule ((cell_type, count) # cell_dict) =
     (if rule cell_type then count else 0) + class_count rule cell_dict"
  by (simp add: class_count_def)

lemma count_cell_fields:
  "count_cell acc (cell_type, count) =
     \<lparr>logic_cells = logic_cells acc + (if is_logic cell_type then count else 0),
      flip_flops = flip_flops acc + (if is_flip_flop cell_type then count else 0),
      muxes = muxes acc + (if is_mux cell_type then count else 0),
      memory_bits = memory_bits acc,
      total_cells = total_cells acc + count\<rparr>"
  by (simp add: count_cell_def Let_def is_logic_def is_flip_flop_def is_mux_def list_ex_iff)

lemma foldl_count_cell:
  "foldl count_cell acc cell_dict =
     \<lparr>logic_cells = logic_cells acc + class_count is_logic cell_dict,
      flip_flops = flip_flops acc + class_count is_flip_flop cell_dict,
      muxes = muxes acc + class_count is_mux cell_dict,
      memory_bits = memory_bits acc,
      total_cells = total_cells acc + sum_list (map snd cell_dict)\<rparr>"
proof (induction cell_dict arbitrary: acc)
  case Nil
  show ?case by (simp add: class_count_def)
next
  case (Cons item cell_dict)
  obtain cell_type count where item: "item = (cell_type, count)" by (cases item)
  show ?case
    unfolding item foldl_Cons Cons.IH count_cell_fields class_count_Cons
    by simp
qed

text \<open>
  C3. The resources of a parsed report are the class counts under the three substring rules,
  each taken over all cell types independently of the other rules, next to the total of all
  counts. The name \<^verbatim>\<open>XORFF\<close> satisfies the flip-flop rule and the logic rule; a report with
  three such cells has three flip-flops and three logic cells, and the class counts add up
  to more than its total of three cells.
\<close>

theorem classification_not_exclusive:
  "count_resources (Some r) =
     \<lparr>logic_cells = class_count is_logic (cells r),
      flip_flops = class_count is_flip_flop (cells r),
      muxes = class_count is_mux (cells r),
      memory_bits = 0,
      total_cells = sum_list (map snd (cells r))\<rparr>
   \<and> is_flip_flop ''XORFF'' \<and> is_logic ''XORFF''
   \<and> count_resources (Some \<lparr>cells = [(''XORFF'', 3)], wires = 0, memories = 0, processes = 0\<rparr>)
     = \<lparr>logic_cells = 3, flip_flops = 3, muxes = 0, memory_bits = 0, total_cells = 3\<rparr>"
proof (intro conjI)
  show "count_resources (Some r) =
     \<lparr>logic_cells = class_count is_logic (cells r),
      flip_flops = class_count is_flip_flop (cells r),
      muxes = class_count is_mux (cells r),
      memory_bits = 0,
      total_cells = sum_list (map snd (cells r))\<rparr>"
    by (simp add: count_resources_def foldl_count_cell no_resources_def)
  show "is_flip_flop ''XORFF''" by code_simp
  show "is_logic ''XORFF''" by code_simp
  show "count_resources (Some \<lparr>cells = [(''XORFF'', 3)], wires = 0, memories = 0, processes = 0\<rparr>)
     = \<lparr>logic_cells = 3, flip_flops = 3, muxes = 0, memory_bits = 0, total_cells = 3\<rparr>"
    by code_simp
qed

theorem classification_not_exclusive_witness:
  "count_resources
     (Some \<lparr>cells = [(''XORFF'', 3), (''$_MUX_'', 2), (''$_DFF_P_'', 4), (''$_AND_'', 1)],
            wires = 10, memories = 0, processes = 0\<rparr>)
   = \<lparr>logic_cells = 4, flip_flops = 7, muxes = 2, memory_bits = 0, total_cells = 10\<rparr>"
proof -
  let ?cells = "[(''XORFF'', 3), (''$_MUX_'', 2), (''$_DFF_P_'', 4), (''$_AND_'', 1::int)]"
  have c: "class_count is_logic ?cells = 4" "class_count is_flip_flop ?cells = 7"
    "class_count is_mux ?cells = 2"
    by code_simp+
  from classification_not_exclusive
    [of "\<lparr>cells = ?cells, wires = 10, memories = 0, processes = 0\<rparr>"] c
  show ?thesis by simp
qed

text \<open>
  The counters of synthesis\_summary.py: flip-flops by the same rule; logic gates by a list
  without \<^verbatim>\<open>LUT\<close>; multiplexers by the one key \<^verbatim>\<open>$_MUX_\<close>, not by substring.
\<close>

lemma foldl_add_if:
  "foldl (\<lambda>n (cell_type, count). n + (if rule cell_type then count else 0)) acc cell_dict
     = acc + class_count rule cell_dict"
proof (induction cell_dict arbitrary: acc)
  case Nil
  show ?case by (simp add: class_count_def)
next
  case (Cons item cell_dict)
  obtain cell_type count where item: "item = (cell_type, count)" by (cases item)
  show ?case unfolding item foldl_Cons prod.case Cons.IH class_count_Cons by simp
qed

lemma count_ffs_class: "count_ffs cell_dict = class_count is_flip_flop cell_dict"
proof -
  have "(\<lambda>ff_count (cell_type, count).
           if str_in ''DFF'' cell_type \<or> str_in ''FF'' cell_type then ff_count + count
           else ff_count)
        = (\<lambda>n (cell_type, count). n + (if is_flip_flop cell_type then count else (0::int)))"
    by (auto simp: fun_eq_iff is_flip_flop_def)
  then show ?thesis by (simp add: count_ffs_def foldl_add_if)
qed

lemma add_if_logic_any:
  "add_if_logic ltypes cell_type count logic_count =
     logic_count + (if \<exists>x \<in> set ltypes. str_in x cell_type then count else 0)"
  by (induction ltypes) auto

lemma count_logic_class: "count_logic cell_dict = class_count is_logic_gate cell_dict"
proof -
  have "(\<lambda>logic_count (cell_type, count).
           add_if_logic [''AND'', ''OR'', ''XOR'', ''NAND'', ''NOR'', ''XNOR'', ''NOT'']
             cell_type count logic_count)
        = (\<lambda>n (cell_type, count). n + (if is_logic_gate cell_type then count else 0))"
    unfolding add_if_logic_any is_logic_gate_def by (rule refl)
  then show ?thesis by (simp add: count_logic_def foldl_add_if)
qed

lemma summary_counters_example:
  "count_ffs [(''XORFF'', 3)] = 3 \<and> count_logic [(''XORFF'', 3)] = 3
   \<and> count_logic [(''LUT4'', 2)] = 0 \<and> count_mux [(''MUXCY'', 2)] = 0"
  by code_simp

text \<open>The class counts of non-negative cell counts are not negative.\<close>

lemma class_count_nonneg:
  "(\<And>cell_type count. (cell_type, count) \<in> set cell_dict \<Longrightarrow> 0 \<le> count)
     \<Longrightarrow> 0 \<le> class_count rule cell_dict"
  unfolding class_count_def by (rule sum_list_nonneg) auto

text \<open>
  C6. For resource counts (integers that are not negative) the percentage difference never
  raises: for a baseline of zero it is the integer 0, and for a positive baseline it is the
  floating-point quotient of the difference and the baseline, times 100.
\<close>

theorem percent_difference_guard:
  assumes "0 \<le> sync_val"
  shows "diff_pct F sync_val async_val =
           Inr (if sync_val = 0 then PyInt 0
                else PyFloat (fmul_int F (int_truediv F (async_val - sync_val) sync_val) 100))"
  using assms by (auto simp: diff_pct_def Let_def and_then_def py_truediv_def)

theorem percent_difference_guard_witness:
  "diff_pct fixed_point 0 5 = Inr (PyInt 0)
   \<and> diff_pct fixed_point 4 5 = Inr (PyFloat (fmul_int fixed_point (int_truediv fixed_point (5 - 4) 4) 100))"
  using percent_difference_guard [of 0 fixed_point 5] percent_difference_guard [of 4 fixed_point 5]
  by simp

section \<open>Matching scenarios with execution results\<close>

text \<open>The dictionary: assignment, keys, lookup.\<close>

lemma dict_set_map_of: "map_of (dict_set d k v) = (map_of d)(k \<mapsto> v)"
  by (induction d) (auto simp: fun_eq_iff)

lemma dict_set_keys:
  "map fst (dict_set d k v) = (if k \<in> set (map fst d) then map fst d else map fst d @ [k])"
proof (induction d)
  case Nil
  show ?case by simp
next
  case (Cons p d)
  obtain k' v' where p: "p = (k', v')" by (cases p)
  show ?case
  proof (cases "k' = k")
    case True
    then show ?thesis by (simp add: p)
  next
    case False
    then show ?thesis using Cons by (simp add: p)
  qed
qed

lemma dict_set_distinct: "distinct (map fst d) \<Longrightarrow> distinct (map fst (dict_set d k v))"
  by (simp add: dict_set_keys)

lemma executed_tests_of_snoc:
  "executed_tests_of (matches @ [(g1, g2)]) =
     dict_set (executed_tests_of matches) (lower (strip g1)) (g2 = ''PASS'')"
  by (simp add: executed_tests_of_def Let_def)

lemma last_outcome_snoc:
  "last_outcome (matches @ [(g1, g2)]) key =
     (if lower (strip g1) = key then Some (g2 = ''PASS'') else last_outcome matches key)"
  by (simp add: last_outcome_def Let_def)

lemma executed_tests_of_distinct: "distinct (map fst (executed_tests_of matches))"
proof (induction matches rule: rev_induct)
  case Nil
  show ?case by (simp add: executed_tests_of_def)
next
  case (snoc m matches)
  obtain g1 g2 where "m = (g1, g2)" by (cases m)
  with snoc show ?case by (simp add: executed_tests_of_snoc dict_set_distinct)
qed

lemma executed_tests_of_lookup:
  "map_of (executed_tests_of matches) key = last_outcome matches key"
proof (induction matches rule: rev_induct)
  case Nil
  show ?case by (simp add: executed_tests_of_def last_outcome_def)
next
  case (snoc m matches)
  obtain g1 g2 where "m = (g1, g2)" by (cases m)
  with snoc show ?case
    by (simp add: executed_tests_of_snoc last_outcome_snoc dict_set_map_of)
qed

lemma executed_tests_of_keys:
  "set (map fst (executed_tests_of matches)) = (\<lambda>(g1, g2). lower (strip g1)) ` set matches"
proof (induction matches rule: rev_induct)
  case Nil
  show ?case by (simp add: executed_tests_of_def)
next
  case (snoc m matches)
  obtain g1 g2 where "m = (g1, g2)" by (cases m)
  with snoc show ?case by (auto simp: executed_tests_of_snoc dict_set_keys)
qed

text \<open>
  The two steps of the matching. The exact step looks the case-folded description up. The
  alternative step takes the first entry, in the order of the dictionary, whose key passes
  the substring test, whatever follows it; with no such entry the scenario is left as it is.
\<close>

lemma update_status_exact:
  "map_of executed_tests (lower (ts_description test)) = Some passed
     \<Longrightarrow> update_status executed_tests test = test\<lparr>ts_executed := True, ts_passed := passed\<rparr>"
  by (simp add: update_status_def)

lemma alternative_matching_first:
  "alternative_matching executed_tests test =
     (case find (\<lambda>(key, passed). name_overlaps test key) executed_tests of
        None \<Rightarrow> test
      | Some (key, passed) \<Rightarrow> test\<lparr>ts_executed := True, ts_passed := passed\<rparr>)"
proof (induction executed_tests)
  case Nil
  show ?case by simp
next
  case (Cons item executed_tests)
  obtain key passed where item: "item = (key, passed)" by (cases item)
  show ?case
  proof (cases "name_overlaps test key")
    case True
    then show ?thesis by (simp add: item name_overlaps_def)
  next
    case False
    then have "alternative_matching (item # executed_tests) test
                 = alternative_matching executed_tests test"
      by (simp add: item name_overlaps_def)
    with False Cons show ?thesis by (simp add: item)
  qed
qed

lemma update_status_alternative:
  "map_of executed_tests (lower (ts_description test)) = None
     \<Longrightarrow> update_status executed_tests test =
         (case find (\<lambda>(key, passed). name_overlaps test key) executed_tests of
            None \<Rightarrow> test
          | Some (key, passed) \<Rightarrow> test\<lparr>ts_executed := True, ts_passed := passed\<rparr>)"
  by (simp add: update_status_def alternative_matching_first)

lemma update_status_unmatched:
  assumes "matched_key executed_tests test = None"
  shows "update_status executed_tests test = test"
proof -
  from assms have k: "lower (ts_description test) \<notin> set (map fst executed_tests)"
    and f: "find (\<lambda>(key, passed). name_overlaps test key) executed_tests = None"
    by (auto simp: matched_key_def split: if_splits)
  from k have "map_of executed_tests (lower (ts_description test)) = None"
    by (simp add: map_of_eq_None_iff)
  then show ?thesis using f by (simp add: update_status_alternative)
qed

lemma update_status_matched:
  assumes "distinct (map fst executed_tests)"
    and "matched_key executed_tests test = Some key"
  shows "\<exists>passed. map_of executed_tests key = Some passed
           \<and> update_status executed_tests test = test\<lparr>ts_executed := True, ts_passed := passed\<rparr>"
proof (cases "lower (ts_description test) \<in> set (map fst executed_tests)")
  case True
  with assms(2) have key: "key = lower (ts_description test)" by (simp add: matched_key_def)
  from True obtain passed where "map_of executed_tests (lower (ts_description test)) = Some passed"
    by (metis map_of_eq_None_iff not_Some_eq set_map)
  then show ?thesis using key update_status_exact by blast
next
  case False
  then have none: "map_of executed_tests (lower (ts_description test)) = None"
    by (simp add: map_of_eq_None_iff)
  from False assms(2) obtain passed where
    f: "find (\<lambda>(key, passed). name_overlaps test key) executed_tests = Some (key, passed)"
    by (auto simp: matched_key_def)
  then have "(key, passed) \<in> set executed_tests"
    by (metis find_Some_iff nth_mem)
  with assms(1) have "map_of executed_tests key = Some passed" by simp
  moreover have "update_status executed_tests test = test\<lparr>ts_executed := True, ts_passed := passed\<rparr>"
    using none f by (simp add: update_status_alternative)
  ultimately show ?thesis by blast
qed

text \<open>
  The example of the specification: two results pass the substring test for the scenario
  \<^verbatim>\<open>test_reset_behavior\<close>, and the one that stands first in the log decides.
\<close>

lemma first_match_wins_example:
  "executed_tests_of [(''Reset Behavior Check'', ''PASS''), (''Full Reset Behavior'', ''FAIL'')]
     = [(''reset behavior check'', True), (''full reset behavior'', False)]
   \<and> update_status
       (executed_tests_of [(''Reset Behavior Check'', ''PASS''), (''Full Reset Behavior'', ''FAIL'')])
       \<lparr>ts_name = ''test_reset_behavior'', ts_category = ''functional'',
        ts_description = ''Reset Behavior'', ts_executed = False, ts_passed = False\<rparr>
     = \<lparr>ts_name = ''test_reset_behavior'', ts_category = ''functional'',
        ts_description = ''Reset Behavior'', ts_executed = True, ts_passed = True\<rparr>
   \<and> update_status
       (executed_tests_of [(''Full Reset Behavior'', ''FAIL''), (''Reset Behavior Check'', ''PASS'')])
       \<lparr>ts_name = ''test_reset_behavior'', ts_category = ''functional'',
        ts_description = ''Reset Behavior'', ts_executed = False, ts_passed = False\<rparr>
     = \<lparr>ts_name = ''test_reset_behavior'', ts_category = ''functional'',
        ts_description = ''Reset Behavior'', ts_executed = True, ts_passed = False\<rparr>"
  by code_simp

text \<open>
  C4. The exact step folds the case of the description, and the keys of the dictionary are
  case-folded, but the alternative step compares the name as it is written in the testbench.
  The task \<^verbatim>\<open>test_Reset\<close> gives the scenario named \<^verbatim>\<open>test_Reset\<close>; the log line
  \<^verbatim>\<open>[TEST 1] Reset Behavior.... PASS\<close> gives the key \<^verbatim>\<open>reset behavior\<close>. The case-folded
  short name \<^verbatim>\<open>reset\<close> is a substring of the key, so the claim binds the scenario to this
  result; the code compares \<^verbatim>\<open>Reset\<close>, finds nothing and leaves the scenario not executed.
\<close>

theorem alternative_matching_keeps_case:
  "extract_tests_from_testbench [''tb/fifo_sync_tb.v'' \<mapsto> ''task test_Reset;''] ''tb/fifo_sync_tb.v''
     = [\<lparr>ts_name = ''test_Reset'', ts_category = ''functional'', ts_description = ''Reset'',
         ts_executed = False, ts_passed = False\<rparr>]
   \<and> executed_tests_of (result_matches ''[TEST 1] Reset Behavior.... PASS'')
     = [(''reset behavior'', True)]
   \<and> str_in (lower (short_name
         \<lparr>ts_name = ''test_Reset'', ts_category = ''functional'', ts_description = ''Reset'',
          ts_executed = False, ts_passed = False\<rparr>)) ''reset behavior''
   \<and> check_test_execution
       [''results/logs/fifo_sync.log'' \<mapsto> ''[TEST 1] Reset Behavior.... PASS'']
       ''results/logs/fifo_sync.log''
       [\<lparr>ts_name = ''test_Reset'', ts_category = ''functional'', ts_description = ''Reset'',
         ts_executed = False, ts_passed = False\<rparr>]
     = [\<lparr>ts_name = ''test_Reset'', ts_category = ''functional'', ts_description = ''Reset'',
         ts_executed = False, ts_passed = False\<rparr>]"
  by code_simp

text \<open>
  C10. The results of a log are collected in a dictionary keyed by the stripped, case-folded
  name, so each name has one entry. A scenario that is matched to a key, by the exact step
  or by the alternative step, is marked executed and gets the outcome of the last result
  line of that name in the log.
\<close>

theorem duplicate_results_last_wins:
  assumes "fs log_file = Some content"
    and "executed_tests = executed_tests_of (result_matches content)"
    and "matched_key executed_tests test = Some key"
  shows "check_test_execution fs log_file tests = map (update_status executed_tests) tests
       \<and> distinct (map fst executed_tests)
       \<and> (\<exists>passed. last_outcome (result_matches content) key = Some passed
             \<and> update_status executed_tests test = test\<lparr>ts_executed := True, ts_passed := passed\<rparr>)"
proof (intro conjI)
  show "check_test_execution fs log_file tests = map (update_status executed_tests) tests"
    using assms(1,2) by (simp add: check_test_execution_def)
  show d: "distinct (map fst executed_tests)"
    unfolding assms(2) by (rule executed_tests_of_distinct)
  from update_status_matched [OF d assms(3)] obtain passed where
    "map_of executed_tests key = Some passed"
    "update_status executed_tests test = test\<lparr>ts_executed := True, ts_passed := passed\<rparr>"
    by blast
  then show "\<exists>passed. last_outcome (result_matches content) key = Some passed
             \<and> update_status executed_tests test = test\<lparr>ts_executed := True, ts_passed := passed\<rparr>"
    unfolding assms(2) executed_tests_of_lookup by blast
qed

theorem duplicate_results_last_wins_witness:
  "check_test_execution
     [''results/logs/fifo_sync.log'' \<mapsto>
        ''[TEST 1] Reset Behavior.... PASS'' @ [CHR 0x0A] @ ''[TEST 2] reset behavior.... FAIL'']
     ''results/logs/fifo_sync.log''
     [\<lparr>ts_name = ''test_reset_behavior'', ts_category = ''functional'',
       ts_description = ''Reset Behavior'', ts_executed = False, ts_passed = False\<rparr>]
   = [\<lparr>ts_name = ''test_reset_behavior'', ts_category = ''functional'',
       ts_description = ''Reset Behavior'', ts_executed = True, ts_passed = False\<rparr>]
   \<and> last_outcome
       (result_matches
          (''[TEST 1] Reset Behavior.... PASS'' @ [CHR 0x0A] @ ''[TEST 2] reset behavior.... FAIL''))
       ''reset behavior''
     = Some False"
proof -
  let ?content =
    "''[TEST 1] Reset Behavior.... PASS'' @ [CHR 0x0A] @ ''[TEST 2] reset behavior.... FAIL''"
  let ?fs = "[''results/logs/fifo_sync.log'' \<mapsto> ?content]"
  let ?test = "\<lparr>ts_name = ''test_reset_behavior'', ts_category = ''functional'',
                 ts_description = ''Reset Behavior'', ts_executed = False, ts_passed = False\<rparr>"
  have f: "?fs ''results/logs/fifo_sync.log'' = Some ?content" by simp
  have k: "matched_key (executed_tests_of (result_matches ?content)) ?test = Some ''reset behavior''"
    by code_simp
  have l: "last_outcome (result_matches ?content) ''reset behavior'' = Some False"
    by code_simp
  from duplicate_results_last_wins
    [where fs = ?fs and log_file = "''results/logs/fifo_sync.log''" and content = ?content
       and executed_tests = "executed_tests_of (result_matches ?content)" and test = ?test
       and key = "''reset behavior''" and tests = "[?test]",
      OF f refl k] l
  show ?thesis
    by auto
qed

end
